theory Spec2Isabelle
  imports Complex_Main
begin

section \<open>JavaScript values\<close>

text \<open>
  A JavaScript string is a sequence of UTF-16 code units; \<open>length\<close> counts code units, as
  \<^verbatim>\<open>String.prototype.length\<close> does. A code unit is a natural number, and \<open>js\<close> turns an
  ASCII literal into its code units.
\<close>

type_synonym jsstring = "nat list"

definition js :: "string \<Rightarrow> jsstring" where
  "js s = map of_char s"

text \<open>
  A JavaScript number is a double: a finite value (a rational; the two zeros are not
  told apart by any operation used here), a NaN or an infinity.
\<close>

datatype jsnum = Fin rat | NaN | PosInf | NegInf

datatype jsval =
    JUndefined
  | JNull
  | JBool bool
  | JNum jsnum
  | JStr jsstring
  | JArr "jsval list"
  | JObj "(jsstring \<times> jsval) list"

datatype jstype = TUndefined | TObject | TBoolean | TNumber | TString

fun typeof :: "jsval \<Rightarrow> jstype" where
  "typeof JUndefined = TUndefined"
| "typeof JNull = TObject"
| "typeof (JBool b) = TBoolean"
| "typeof (JNum n) = TNumber"
| "typeof (JStr s) = TString"
| "typeof (JArr xs) = TObject"
| "typeof (JObj kvs) = TObject"

text \<open>The truthiness that \<^verbatim>\<open>!x\<close>, \<^verbatim>\<open>if (x)\<close> and \<^verbatim>\<open>x || y\<close> test.\<close>

fun truthy :: "jsval \<Rightarrow> bool" where
  "truthy JUndefined = False"
| "truthy JNull = False"
| "truthy (JBool b) = b"
| "truthy (JNum n) = (n \<noteq> NaN \<and> n \<noteq> Fin 0)"
| "truthy (JStr s) = (s \<noteq> [])"
| "truthy (JArr xs) = True"
| "truthy (JObj kvs) = True"

text \<open>
  Strict equality \<^verbatim>\<open>===\<close>. NaN equals nothing. Two objects are equal only when they are
  the same reference; references are not modelled and the comparison of two objects
  answers False (wherever this code compares with \<^verbatim>\<open>===\<close>, one operand is a string or
  a number).
\<close>

fun jsStrictEq :: "jsval \<Rightarrow> jsval \<Rightarrow> bool" where
  "jsStrictEq (JNum a) (JNum b) = (a \<noteq> NaN \<and> a = b)"
| "jsStrictEq (JArr xs) y = False"
| "jsStrictEq (JObj kvs) y = False"
| "jsStrictEq x y = (x = y)"

text \<open>Reading a property: an absent key reads as \<^verbatim>\<open>undefined\<close>.\<close>

fun getProp :: "jsval option \<Rightarrow> jsval" where
  "getProp None = JUndefined"
| "getProp (Some v) = v"

text \<open>\<^verbatim>\<open>x || d\<close>\<close>

definition jsOr :: "jsval \<Rightarrow> jsval \<Rightarrow> jsval" where
  "jsOr x d = (if truthy x then x else d)"

text \<open>\<^verbatim>\<open>Number.isInteger\<close>, \<^verbatim>\<open>n < 0\<close> and \<^verbatim>\<open>n > 120\<close> on a number.\<close>

fun isInteger :: "jsnum \<Rightarrow> bool" where
  "isInteger (Fin r) = (of_int \<lfloor>r\<rfloor> = r)"
| "isInteger NaN = False"
| "isInteger PosInf = False"
| "isInteger NegInf = False"

fun numLess :: "jsnum \<Rightarrow> rat \<Rightarrow> bool" where
  "numLess (Fin r) k = (r < k)"
| "numLess NaN k = False"
| "numLess PosInf k = False"
| "numLess NegInf k = True"

fun numGreater :: "jsnum \<Rightarrow> rat \<Rightarrow> bool" where
  "numGreater (Fin r) k = (r > k)"
| "numGreater NaN k = False"
| "numGreater PosInf k = True"
| "numGreater NegInf k = False"

subsection \<open>Strings: trim and the email pattern\<close>

text \<open>
  The code units that \<^verbatim>\<open>String.prototype.trim\<close> removes: the ECMAScript WhiteSpace and
  LineTerminator code points.
\<close>

definition isWhiteSpace :: "nat \<Rightarrow> bool" where
  "isWhiteSpace c =
     (c = 0x09 \<or> c = 0x0A \<or> c = 0x0B \<or> c = 0x0C \<or> c = 0x0D \<or> c = 0x20 \<or> c = 0xA0
      \<or> c = 0x1680 \<or> (0x2000 \<le> c \<and> c \<le> 0x200A) \<or> c = 0x2028 \<or> c = 0x2029
      \<or> c = 0x202F \<or> c = 0x205F \<or> c = 0x3000 \<or> c = 0xFEFF)"

definition trim :: "jsstring \<Rightarrow> jsstring" where
  "trim s = rev (dropWhile isWhiteSpace (rev (dropWhile isWhiteSpace s)))"

definition isLetter :: "nat \<Rightarrow> bool" where
  "isLetter c = ((0x41 \<le> c \<and> c \<le> 0x5A) \<or> (0x61 \<le> c \<and> c \<le> 0x7A))"

definition isDigit :: "nat \<Rightarrow> bool" where
  "isDigit c = (0x30 \<le> c \<and> c \<le> 0x39)"

text \<open>\<^verbatim>\<open>[a-zA-Z0-9._%+-]\<close>\<close>

definition localChar :: "nat \<Rightarrow> bool" where
  "localChar c = (isLetter c \<or> isDigit c \<or> c = 0x2E \<or> c = 0x5F \<or> c = 0x25 \<or> c = 0x2B \<or> c = 0x2D)"

text \<open>\<^verbatim>\<open>[a-zA-Z0-9.-]\<close>\<close>

definition domainChar :: "nat \<Rightarrow> bool" where
  "domainChar c = (isLetter c \<or> isDigit c \<or> c = 0x2E \<or> c = 0x2D)"

text \<open>
  \<^verbatim>\<open>/[a-zA-Z0-9.-]+\.[a-zA-Z]{2,}$/\<close> on the rest of the string after the \<^verbatim>\<open>@\<close>:
  the letters at the end are the top-level domain (no letter is a dot, so it is the
  longest run of letters at the end), before it a dot, before that a non-empty run of
  domain characters.
\<close>

definition domainTld :: "jsstring \<Rightarrow> bool" where
  "domainTld r =
     (let tld = takeWhile isLetter (rev r); rest = dropWhile isLetter (rev r)
      in 2 \<le> length tld \<and>
         (case rest of
            [] \<Rightarrow> False
          | c # d \<Rightarrow> c = 0x2E \<and> d \<noteq> [] \<and> list_all domainChar d))"

text \<open>
  \<^verbatim>\<open>/^[a-zA-Z0-9._%+-]+@[a-zA-Z0-9.-]+\.[a-zA-Z]{2,}$/.test(s)\<close>: the local part is the
  longest run of local characters at the start (\<^verbatim>\<open>@\<close> is not one of them), then \<^verbatim>\<open>@\<close>.
\<close>

definition emailRegex_test :: "jsstring \<Rightarrow> bool" where
  "emailRegex_test s =
     (let local = takeWhile localChar s; rest = dropWhile localChar s
      in local \<noteq> [] \<and>
         (case rest of
            [] \<Rightarrow> False
          | c # r \<Rightarrow> c = 0x40 \<and> domainTld r))"

text \<open>The language of the pattern, stated directly.\<close>

definition emailPattern :: "jsstring \<Rightarrow> bool" where
  "emailPattern s =
     (\<exists>l d t. s = l @ [0x40] @ d @ [0x2E] @ t
        \<and> l \<noteq> [] \<and> list_all localChar l
        \<and> d \<noteq> [] \<and> list_all domainChar d
        \<and> 2 \<le> length t \<and> list_all isLetter t)"

text \<open>
  \<^verbatim>\<open>String.prototype.toLowerCase\<close> on ASCII code units (the strings it is applied to here,
  emails that match the pattern and strings of hexadecimal digits, have no other letters).
\<close>

definition toLowerCase :: "jsstring \<Rightarrow> jsstring" where
  "toLowerCase s = map (\<lambda>c. if 0x41 \<le> c \<and> c \<le> 0x5A then c + 0x20 else c) s"

text \<open>\<^verbatim>\<open>Array.prototype.join\<close> on an array of strings.\<close>

fun join :: "jsstring \<Rightarrow> jsstring list \<Rightarrow> jsstring" where
  "join sep [] = []"
| "join sep [x] = x"
| "join sep (x # y # ys) = x @ sep @ join sep (y # ys)"

text \<open>The string of a value whose \<^verbatim>\<open>typeof\<close> is string, the number of one whose \<^verbatim>\<open>typeof\<close> is number.\<close>

fun asString :: "jsval \<Rightarrow> jsstring" where
  "asString (JStr s) = s"
| "asString v = []"

fun asNumber :: "jsval \<Rightarrow> jsnum" where
  "asNumber (JNum n) = n"
| "asNumber v = NaN"

section \<open>Errors (utils/errorHandler.ts)\<close>

datatype ErrorType = VALIDATION | NOT_FOUND | DUPLICATE | SERVER | BAD_REQUEST

fun ErrorType_value :: "ErrorType \<Rightarrow> jsstring" where
  "ErrorType_value VALIDATION = js ''ValidationError''"
| "ErrorType_value NOT_FOUND = js ''NotFoundError''"
| "ErrorType_value DUPLICATE = js ''DuplicateError''"
| "ErrorType_value SERVER = js ''ServerError''"
| "ErrorType_value BAD_REQUEST = js ''BadRequestError''"

text \<open>
  An error object. \<open>err_class\<close> is what \<^verbatim>\<open>instanceof\<close> sees: one of the two Mongoose
  classes that \<open>handleError\<close> tests for, or another class. The other fields are the
  properties that \<open>handleError\<close> reads (\<^verbatim>\<open>undefined\<close> when the object has none);
  \<open>err_errors\<close> holds the \<^verbatim>\<open>message\<close> of each value of \<^verbatim>\<open>error.errors\<close> of a Mongoose
  validation error.
\<close>

datatype errorClass = MongooseValidationError | MongooseCastError | OtherError

record raisedError =
  err_class :: errorClass
  err_name :: jsval
  err_message :: jsval
  err_code :: jsval
  err_keyValue :: jsval
  err_details :: jsval
  err_errors :: "jsval list"

text \<open>
  What a \<^verbatim>\<open>throw\<close> can raise and \<open>handleError\<close>, whose parameter has the type \<^verbatim>\<open>any\<close>, can
  receive: \<^verbatim>\<open>null\<close>, \<^verbatim>\<open>undefined\<close> (the reason of a promise rejected without one), or
  an object (a primitive other than these two reads as an object all of whose
  properties are \<^verbatim>\<open>undefined\<close>).
\<close>

datatype thrown = ThrownNull | ThrownUndefined | Thrown raisedError

text \<open>The exception of the JavaScript engine for a property read on \<^verbatim>\<open>null\<close> or \<^verbatim>\<open>undefined\<close>.\<close>

datatype exception = TypeError

text \<open>\<^verbatim>\<open>interface ApiError\<close>; \<open>api_details\<close> is None where the returned object has no such key.\<close>

record ApiError =
  api_type :: ErrorType
  api_message :: jsval
  api_details :: "jsval option"
  api_status :: nat

text \<open>
  \<open>handleError\<close>. On \<^verbatim>\<open>null\<close> and \<^verbatim>\<open>undefined\<close> the first test, an \<^verbatim>\<open>instanceof\<close>, is false
  and the second, which reads \<^verbatim>\<open>error.code\<close>, throws.
\<close>

definition handleError :: "thrown \<Rightarrow> exception + ApiError" where
  "handleError raised =
     (case raised of
        ThrownNull \<Rightarrow> Inl TypeError
      | ThrownUndefined \<Rightarrow> Inl TypeError
      | Thrown error \<Rightarrow>
          Inr
            (if err_class error = MongooseValidationError then
               \<lparr> api_type = VALIDATION,
                 api_message = JStr (js ''Error de validaci'' @ [0xF3] @ js ''n''),
                 api_details = Some (JArr (err_errors error)),
                 api_status = 400 \<rparr>
             else if jsStrictEq (err_code error) (JNum (Fin 11000)) then
               \<lparr> api_type = DUPLICATE,
                 api_message = JStr (js ''Registro duplicado''),
                 api_details = Some (err_keyValue error),
                 api_status = 409 \<rparr>
             else if err_class error = MongooseCastError then
               \<lparr> api_type = BAD_REQUEST,
                 api_message = JStr (js ''ID no v'' @ [0xE1] @ js ''lido''),
                 api_details = Some (err_message error),
                 api_status = 400 \<rparr>
             else if jsStrictEq (err_name error) (JStr (ErrorType_value NOT_FOUND)) then
               \<lparr> api_type = NOT_FOUND,
                 api_message = jsOr (err_message error) (JStr (js ''Recurso no encontrado'')),
                 api_details = None,
                 api_status = 404 \<rparr>
             else if jsStrictEq (err_name error) (JStr (ErrorType_value BAD_REQUEST)) then
               \<lparr> api_type = BAD_REQUEST,
                 api_message = jsOr (err_message error) (JStr (js ''Solicitud incorrecta'')),
                 api_details = None,
                 api_status = 400 \<rparr>
             else if jsStrictEq (err_name error) (JStr (ErrorType_value VALIDATION)) then
               \<lparr> api_type = VALIDATION,
                 api_message =
                   jsOr (err_message error) (JStr (js ''Error de validaci'' @ [0xF3] @ js ''n'')),
                 api_details = Some (jsOr (err_details error) (JArr [])),
                 api_status = 400 \<rparr>
             else
               \<lparr> api_type = SERVER,
                 api_message = JStr (js ''Error interno del servidor''),
                 api_details = Some (err_message error),
                 api_status = 500 \<rparr>))"

text \<open>
  \<^verbatim>\<open>class AppError extends Error\<close>: the constructor sets \<^verbatim>\<open>message\<close> and \<^verbatim>\<open>name\<close>; the
  three static factories.
\<close>

definition AppError :: "jsstring \<Rightarrow> ErrorType \<Rightarrow> raisedError" where
  "AppError message name =
     \<lparr> err_class = OtherError,
       err_name = JStr (ErrorType_value name),
       err_message = JStr message,
       err_code = JUndefined,
       err_keyValue = JUndefined,
       err_details = JUndefined,
       err_errors = [] \<rparr>"

definition AppError_notFound :: "jsstring \<Rightarrow> raisedError" where
  "AppError_notFound message = AppError message NOT_FOUND"

definition AppError_badRequest :: "jsstring \<Rightarrow> raisedError" where
  "AppError_badRequest message = AppError message BAD_REQUEST"

definition AppError_validation :: "jsstring \<Rightarrow> jsval list \<Rightarrow> raisedError" where
  "AppError_validation message details =
     (AppError message VALIDATION) \<lparr> err_details := JArr details \<rparr>"

text \<open>
  The error that \<open>createUser\<close> and \<open>updateUser\<close> build for an email already stored:
  \<^verbatim>\<open>new Error('Email ya registrado')\<close> with \<^verbatim>\<open>code = 11000\<close> and
  \<^verbatim>\<open>keyValue = { email: userData.email }\<close>.
\<close>

definition emailYaRegistrado :: "jsval \<Rightarrow> raisedError" where
  "emailYaRegistrado email =
     \<lparr> err_class = OtherError,
       err_name = JStr (js ''Error''),
       err_message = JStr (js ''Email ya registrado''),
       err_code = JNum (Fin 11000),
       err_keyValue = JObj [(js ''email'', email)],
       err_details = JUndefined,
       err_errors = [] \<rparr>"

section \<open>The stores (config/database.ts, models/User.ts and models/Task.ts)\<close>

text \<open>
  The data fields of \<^verbatim>\<open>IUser\<close>, as the keys of an object: a field is None when the object
  has no such key, and otherwise holds the value under the key, of whatever type it is.
\<close>

record userFields =
  name :: "jsval option"
  email :: "jsval option"
  age :: "jsval option"
  role :: "jsval option"
  active :: "jsval option"

text \<open>
  \<^verbatim>\<open>Partial<IUser>\<close>, the payload of \<open>createUser\<close> and \<open>updateUser\<close>: the data fields and the
  \<^verbatim>\<open>_id\<close> that \<^verbatim>\<open>IUser\<close> has from \<^verbatim>\<open>Document\<close>, here a string when the payload has the key.
\<close>

record userData = userFields +
  userData_id :: "jsstring option"

text \<open>
  A stored user: the data fields, the \<^verbatim>\<open>_id\<close> (the string that \<^verbatim>\<open>_id.toString()\<close> gives)
  and the two timestamps (milliseconds since the epoch).
\<close>

record userDoc = userFields +
  user_id :: jsstring
  user_createdAt :: int
  user_updatedAt :: int

text \<open>
  A task. The \<^verbatim>\<open>user\<close> field of a stored task is the id of its user; in a task returned
  to the caller it has been replaced by what populate found: in the in-memory store the
  whole user, the id itself or \<^verbatim>\<open>undefined\<close>, in the database the \<^verbatim>\<open>_id\<close>, name and email
  of the user or \<^verbatim>\<open>null\<close>.
\<close>

datatype populatedUser =
    UserDocument userDoc
  | UserId jsstring
  | UserUndefined
  | UserNameEmail jsstring "jsval option" "jsval option"
  | UserNull

record 'u taskDoc =
  task_id :: jsstring
  task_title :: jsstring
  task_description :: jsstring
  task_status :: jsstring
  task_user :: 'u
  task_createdAt :: int
  task_updatedAt :: int

text \<open>
  \<^verbatim>\<open>Partial<ITask>\<close>, the payload of \<open>createTask\<close> and \<open>updateTask\<close>, with the fields that
  the route declares, all strings.
\<close>

record taskData =
  title :: "jsstring option"
  description :: "jsstring option"
  status :: "jsstring option"
  user :: "jsstring option"

text \<open>The two module variables \<^verbatim>\<open>inMemoryUsers\<close> and \<^verbatim>\<open>inMemoryTasks\<close>.\<close>

record store =
  inMemoryUsers :: "userDoc list"
  inMemoryTasks :: "jsstring taskDoc list"

text \<open>The two collections of the MongoDB database.\<close>

record mongodb =
  users_collection :: "userDoc list"
  tasks_collection :: "jsstring taskDoc list"

text \<open>
  The state that the controllers run on: the module variable \<^verbatim>\<open>inMemoryMode\<close>, which
  \<open>connectDB\<close> sets once, the in-memory store and the database.
\<close>

record system =
  inMemoryMode :: bool
  memory :: store
  database :: mongodb

text \<open>
  What is taken from the Mongoose library as it is, a parameter of the controllers that
  call it: the wording of the messages of its errors (of the cast error for a value, of
  the validation error that wraps it, of the duplicate-key error of the server for a key
  and a value), and the call
  \<^verbatim>\<open>Task.findByIdAndUpdate(id, update, { new: true, runValidators: true }).populate('user', 'name email')\<close>,
  which at a time, for an id and an update, on a database, throws or gives the updated
  and populated task or \<^verbatim>\<open>null\<close>, and leaves a database.
\<close>

record library =
  castErrorMessage :: "jsstring \<Rightarrow> jsstring"
  validationFailedMessage :: "jsstring \<Rightarrow> jsstring"
  duplicateKeyMessage :: "jsstring \<Rightarrow> jsval \<Rightarrow> jsstring"
  Task_findByIdAndUpdate ::
    "int \<Rightarrow> jsstring \<Rightarrow> taskData \<Rightarrow> mongodb \<Rightarrow> (raisedError + populatedUser taskDoc option) \<times> mongodb"

text \<open>\<^verbatim>\<open>Array.prototype.findIndex\<close>, None for \<^verbatim>\<open>-1\<close>.\<close>

fun findIndex :: "('a \<Rightarrow> bool) \<Rightarrow> 'a list \<Rightarrow> nat option" where
  "findIndex p [] = None"
| "findIndex p (x # xs) =
     (if p x then Some 0 else (case findIndex p xs of None \<Rightarrow> None | Some i \<Rightarrow> Some (Suc i)))"

subsection \<open>The user model in the database\<close>

text \<open>
  Modelled from the spec: the Mongoose library that runs the user schema of models/User.ts
  on the database is not part of the sources. The model follows the data model of the
  specification and the options of the schema: an \<^verbatim>\<open>_id\<close> is an ObjectId, written as its 24
  hexadecimal digits in lower case; a string that is not 24 hexadecimal digits is cast to
  none and the library throws its cast error; the name is trimmed; the email is trimmed
  and lower-cased and is unique in the collection, as is the \<^verbatim>\<open>_id\<close>; role and active have
  the defaults user and true; a key that holds \<^verbatim>\<open>undefined\<close> counts as absent; the two
  timestamps of a new document are the time of the save.
\<close>

definition isHexDigit :: "nat \<Rightarrow> bool" where
  "isHexDigit c = ((0x30 \<le> c \<and> c \<le> 0x39) \<or> (0x41 \<le> c \<and> c \<le> 0x46) \<or> (0x61 \<le> c \<and> c \<le> 0x66))"

text \<open>
  Modelled from the spec: the cast of a string to an ObjectId, the lower-case digits of a
  string of 24 hexadecimal digits and none for any other string.
\<close>

definition castObjectId :: "jsstring \<Rightarrow> jsstring option" where
  "castObjectId v = (if length v = 24 \<and> list_all isHexDigit v then Some (toLowerCase v) else None)"

text \<open>
  Modelled from the spec: the cast error of the library for a value that is no ObjectId,
  the error that \<open>handleError\<close> reports as an invalid id.
\<close>

definition castError :: "library \<Rightarrow> jsstring \<Rightarrow> raisedError" where
  "castError lib v =
     \<lparr> err_class = MongooseCastError,
       err_name = JStr (js ''CastError''),
       err_message = JStr (castErrorMessage lib v),
       err_code = JUndefined,
       err_keyValue = JUndefined,
       err_details = JUndefined,
       err_errors = [] \<rparr>"

text \<open>
  Modelled from the spec: the validation error of the library for a document whose \<^verbatim>\<open>_id\<close>
  is no ObjectId; its one field error is the cast error.
\<close>

definition validationFailed :: "library \<Rightarrow> jsstring \<Rightarrow> raisedError" where
  "validationFailed lib v =
     \<lparr> err_class = MongooseValidationError,
       err_name = JStr (js ''ValidationError''),
       err_message = JStr (validationFailedMessage lib v),
       err_code = JUndefined,
       err_keyValue = JUndefined,
       err_details = JUndefined,
       err_errors = [JStr (castErrorMessage lib v)] \<rparr>"

text \<open>
  Modelled from the spec: the duplicate-key error of the server, with the code 11000 and
  the key and value in \<^verbatim>\<open>keyValue\<close>.
\<close>

definition duplicateKey :: "library \<Rightarrow> jsstring \<Rightarrow> jsval \<Rightarrow> raisedError" where
  "duplicateKey lib key v =
     \<lparr> err_class = OtherError,
       err_name = JStr (js ''MongoServerError''),
       err_message = JStr (duplicateKeyMessage lib key v),
       err_code = JNum (Fin 11000),
       err_keyValue = JObj [(key, v)],
       err_details = JUndefined,
       err_errors = [] \<rparr>"

text \<open>
  Modelled from the spec: \<^verbatim>\<open>User.findById(id)\<close> throws the cast error or gives the document
  with that \<^verbatim>\<open>_id\<close>, or \<^verbatim>\<open>null\<close>.
\<close>

definition User_findById :: "library \<Rightarrow> jsstring \<Rightarrow> mongodb \<Rightarrow> raisedError + userDoc option" where
  "User_findById lib v db =
     (case castObjectId v of
        None \<Rightarrow> Inl (castError lib v)
      | Some oid \<Rightarrow> Inr (find (\<lambda>u. user_id u = oid) (users_collection db)))"

text \<open>
  Modelled from the spec: \<^verbatim>\<open>User.exists({ _id: v })\<close>, the existence probe, throws the cast
  error or tells whether a document has that \<^verbatim>\<open>_id\<close>.
\<close>

definition User_exists :: "library \<Rightarrow> jsstring \<Rightarrow> mongodb \<Rightarrow> raisedError + bool" where
  "User_exists lib v db =
     (case castObjectId v of
        None \<Rightarrow> Inl (castError lib v)
      | Some oid \<Rightarrow> Inr (list_ex (\<lambda>u. user_id u = oid) (users_collection db)))"

text \<open>Modelled from the spec: a key that holds \<^verbatim>\<open>undefined\<close> counts as absent.\<close>

fun definedKey :: "jsval option \<Rightarrow> jsval option" where
  "definedKey (Some JUndefined) = None"
| "definedKey v = v"

text \<open>Modelled from the spec: a setter of the schema (trim, lowercase) acts on a string.\<close>

fun stringSetter :: "(jsstring \<Rightarrow> jsstring) \<Rightarrow> jsval \<Rightarrow> jsval" where
  "stringSetter f (JStr s) = JStr (f s)"
| "stringSetter f v = v"

text \<open>
  Modelled from the spec: \<^verbatim>\<open>new User(userData)\<close>, for a payload that \<open>validateUserData\<close> has
  accepted (\<open>createUser\<close> calls it on no other, and on such a payload the validators of the schema find nothing):
  the document with the given \<^verbatim>\<open>_id\<close>, the setters and defaults of the schema applied, and
  the timestamps that the save gives it.
\<close>

definition User_document :: "jsstring \<Rightarrow> int \<Rightarrow> userData \<Rightarrow> userDoc" where
  "User_document oid now userData =
     \<lparr> name = map_option (stringSetter trim) (definedKey (name userData)),
       email = map_option (stringSetter (\<lambda>e. toLowerCase (trim e))) (definedKey (email userData)),
       age = definedKey (age userData),
       role = (case definedKey (role userData) of
                 None \<Rightarrow> Some (JStr (js ''user''))
               | Some v \<Rightarrow> Some v),
       active = (case definedKey (active userData) of
                   None \<Rightarrow> Some (JBool True)
                 | Some v \<Rightarrow> Some v),
       user_id = oid,
       user_createdAt = now,
       user_updatedAt = now \<rparr>"

text \<open>
  Modelled from the spec: the insert of the save. The server refuses, with the duplicate-key error, a document
  whose \<^verbatim>\<open>_id\<close> or whose email a document of the collection has.
\<close>

definition User_insert :: "library \<Rightarrow> userDoc \<Rightarrow> mongodb \<Rightarrow> (raisedError + userDoc) \<times> mongodb" where
  "User_insert lib document db =
     (if list_ex (\<lambda>u. user_id u = user_id document) (users_collection db) then
        (Inl (duplicateKey lib (js ''_id'') (JStr (user_id document))), db)
      else if list_ex (\<lambda>u. email u = email document) (users_collection db) then
        (Inl (duplicateKey lib (js ''email'') (getProp (email document))), db)
      else
        (Inr document, db \<lparr> users_collection := users_collection db @ [document] \<rparr>))"

text \<open>
  Modelled from the spec: \<^verbatim>\<open>new User(userData)\<close> followed by \<^verbatim>\<open>user.save()\<close>. The ObjectId that the library generates
  when the payload has no \<^verbatim>\<open>_id\<close> and the time of the save are inputs. An \<^verbatim>\<open>_id\<close> of the
  payload that is no ObjectId makes the save throw the validation error.
\<close>

definition User_save ::
  "library \<Rightarrow> jsstring \<Rightarrow> int \<Rightarrow> userData \<Rightarrow> mongodb \<Rightarrow> (raisedError + userDoc) \<times> mongodb" where
  "User_save lib newObjectId now userData db =
     (case userData_id userData of
        None \<Rightarrow> User_insert lib (User_document newObjectId now userData) db
      | Some v \<Rightarrow>
          (case castObjectId v of
             None \<Rightarrow> (Inl (validationFailed lib v), db)
           | Some oid \<Rightarrow> User_insert lib (User_document oid now userData) db))"

section \<open>User controller (controllers/userController.ts)\<close>

definition validRoles :: "jsstring list" where
  "validRoles = [js ''user'', js ''admin'', js ''editor'']"

text \<open>
  \<open>validateUserData\<close>: the \<open>errors\<close> array grows block by block, and the function throws
  at the end when it is not empty.
\<close>

definition validateUserData :: "'a userFields_scheme \<Rightarrow> raisedError + unit" where
  "validateUserData userData =
     (let errors = [];
          errors =
            (if \<not> truthy (getProp (name userData)) then
               errors @ [js ''El nombre es obligatorio'']
             else if typeof (getProp (name userData)) \<noteq> TString then
               errors @ [js ''El nombre debe ser una cadena de texto'']
             else
               (let errors =
                      (if length (trim (asString (getProp (name userData)))) < 2
                       then errors @ [js ''El nombre debe tener al menos 2 caracteres'']
                       else errors);
                    errors =
                      (if length (trim (asString (getProp (name userData)))) > 50
                       then errors @ [js ''El nombre no puede tener m'' @ [0xE1] @ js ''s de 50 caracteres'']
                       else errors)
                in errors));
          errors =
            (if \<not> truthy (getProp (email userData)) then
               errors @ [js ''El email es obligatorio'']
             else if typeof (getProp (email userData)) \<noteq> TString then
               errors @ [js ''El email debe ser una cadena de texto'']
             else if \<not> emailRegex_test (asString (getProp (email userData))) then
               errors @ [js ''El formato del email no es v'' @ [0xE1] @ js ''lido'']
             else errors);
          errors =
            (if getProp (age userData) \<noteq> JUndefined then
               (if typeof (getProp (age userData)) \<noteq> TNumber then
                  errors @ [js ''La edad debe ser un n'' @ [0xFA] @ js ''mero'']
                else
                  (let errors =
                         (if \<not> isInteger (asNumber (getProp (age userData)))
                          then errors @ [js ''La edad debe ser un n'' @ [0xFA] @ js ''mero entero'']
                          else errors);
                       errors =
                         (if numLess (asNumber (getProp (age userData))) 0
                          then errors @ [js ''La edad no puede ser negativa'']
                          else errors);
                       errors =
                         (if numGreater (asNumber (getProp (age userData))) 120
                          then errors @ [js ''La edad no puede ser mayor a 120 a'' @ [0xF1] @ js ''os'']
                          else errors)
                   in errors))
             else errors);
          errors =
            (if getProp (role userData) \<noteq> JUndefined then
               (if typeof (getProp (role userData)) \<noteq> TString then
                  errors @ [js ''El rol debe ser una cadena de texto'']
                else if asString (getProp (role userData)) \<notin> set validRoles then
                  errors @ [js ''El rol '' @ [0x27] @ asString (getProp (role userData)) @ [0x27]
                            @ js '' no es v'' @ [0xE1] @ js ''lido. Roles v'' @ [0xE1] @ js ''lidos: ''
                            @ join (js '', '') validRoles]
                else errors)
             else errors);
          errors =
            (if getProp (active userData) \<noteq> JUndefined \<and> typeof (getProp (active userData)) \<noteq> TBoolean
             then errors @ [js ''El campo active debe ser un valor booleano'']
             else errors)
      in if length errors > 0
         then Inl (AppError_validation (js ''Error de validaci'' @ [0xF3] @ js ''n'') (map JStr errors))
         else Inr ())"

text \<open>\<^verbatim>\<open>Object.keys(userData)\<close>; the code reads only the number of keys.\<close>

definition keys :: "userData \<Rightarrow> jsstring list" where
  "keys userData =
     (if userData_id userData = None then [] else [js ''_id''])
     @ (if name userData = None then [] else [js ''name''])
     @ (if email userData = None then [] else [js ''email''])
     @ (if age userData = None then [] else [js ''age''])
     @ (if role userData = None then [] else [js ''role''])
     @ (if active userData = None then [] else [js ''active''])"

text \<open>One key of \<^verbatim>\<open>{ ...a, ...b }\<close>: the value of b where b has the key, else that of a.\<close>

fun spreadKey :: "'v option \<Rightarrow> 'v option \<Rightarrow> 'v option" where
  "spreadKey a None = a"
| "spreadKey a (Some v) = Some v"

text \<open>The same for a key that the first object is sure to have.\<close>

fun spreadField :: "'v \<Rightarrow> 'v option \<Rightarrow> 'v" where
  "spreadField a None = a"
| "spreadField a (Some v) = v"

text \<open>
  \<open>getAllUsers\<close>, \<open>updateUser\<close> and \<open>deleteUser\<close> are embedded with their in-memory branch, on
  the in-memory store; \<open>getUserById\<close> and \<open>createUser\<close> with both branches, on the system.
\<close>

definition getAllUsers :: "store \<Rightarrow> (raisedError + userDoc list) \<times> store" where
  "getAllUsers s = (Inr (inMemoryUsers s), s)"

definition getUserById :: "library \<Rightarrow> jsstring \<Rightarrow> system \<Rightarrow> (raisedError + userDoc) \<times> system" where
  "getUserById lib ident s =
     (if inMemoryMode s then
        (case find (\<lambda>u. user_id u = ident) (inMemoryUsers (memory s)) of
           None \<Rightarrow> (Inl (AppError_notFound (js ''Usuario con ID '' @ ident @ js '' no encontrado'')), s)
         | Some foundUser \<Rightarrow> (Inr foundUser, s))
      else
        (case User_findById lib ident (database s) of
           Inl error \<Rightarrow> (Inl error, s)
         | Inr None \<Rightarrow>
             (Inl (AppError_notFound (js ''Usuario con ID '' @ ident @ js '' no encontrado'')), s)
         | Inr (Some foundUser) \<Rightarrow> (Inr foundUser, s)))"

text \<open>
  \<open>createUser\<close>. The fresh \<^verbatim>\<open>new mongoose.Types.ObjectId()\<close> and the values of the two
  \<^verbatim>\<open>new Date()\<close> of the in-memory branch are inputs; the other branch takes the first of
  the two times as the time of the save. In the in-memory branch the payload is spread
  after \<^verbatim>\<open>_id\<close>, \<^verbatim>\<open>role\<close> and \<^verbatim>\<open>active\<close> and before the timestamps.
\<close>

definition createUser ::
  "library \<Rightarrow> jsstring \<Rightarrow> int \<Rightarrow> int \<Rightarrow> userData \<Rightarrow> system \<Rightarrow> (raisedError + userDoc) \<times> system" where
  "createUser lib newObjectId now1 now2 userData s =
     (case validateUserData userData of
        Inl error \<Rightarrow> (Inl error, s)
      | Inr _ \<Rightarrow>
          if inMemoryMode s then
            (case find (\<lambda>u. jsStrictEq (getProp (email u)) (getProp (email userData)))
                    (inMemoryUsers (memory s)) of
               Some existingUser \<Rightarrow> (Inl (emailYaRegistrado (getProp (email userData))), s)
             | None \<Rightarrow>
                 (let newUser =
                        \<lparr> name = name userData,
                          email = email userData,
                          age = age userData,
                          role = spreadKey (Some (JStr (js ''user''))) (role userData),
                          active = spreadKey (Some (JBool True)) (active userData),
                          user_id = spreadField newObjectId (userData_id userData),
                          user_createdAt = now1,
                          user_updatedAt = now2 \<rparr>;
                      users = inMemoryUsers (memory s) @ [newUser]
                  in (Inr newUser, s \<lparr> memory := (memory s) \<lparr> inMemoryUsers := users \<rparr> \<rparr>)))
          else
            (case User_save lib newObjectId now1 userData (database s) of
               (Inl error, db) \<Rightarrow> (Inl error, s \<lparr> database := db \<rparr>)
             | (Inr savedUser, db) \<Rightarrow> (Inr savedUser, s \<lparr> database := db \<rparr>)))"

text \<open>\<open>updateUser\<close>; the value of \<^verbatim>\<open>new Date()\<close> is an input.\<close>

definition updateUser ::
  "int \<Rightarrow> jsstring \<Rightarrow> userData \<Rightarrow> store \<Rightarrow> (raisedError + userDoc) \<times> store" where
  "updateUser now ident userData s =
     (case (if length (keys userData) > 0 then validateUserData userData else Inr ()) of
        Inl error \<Rightarrow> (Inl error, s)
      | Inr _ \<Rightarrow>
          (let users = inMemoryUsers s in
           case findIndex (\<lambda>u. user_id u = ident) users of
             None \<Rightarrow> (Inl (AppError_notFound (js ''Usuario con ID '' @ ident @ js '' no encontrado'')), s)
           | Some userIndex \<Rightarrow>
               if truthy (getProp (email userData))
                  \<and> list_ex (\<lambda>(i, u). jsStrictEq (getProp (email u)) (getProp (email userData)) \<and> i \<noteq> userIndex)
                       (enumerate 0 users)
               then (Inl (emailYaRegistrado (getProp (email userData))), s)
               else
                 (let updatedUser =
                        (users ! userIndex)
                          \<lparr> name := spreadKey (name (users ! userIndex)) (name userData),
                            email := spreadKey (email (users ! userIndex)) (email userData),
                            age := spreadKey (age (users ! userIndex)) (age userData),
                            role := spreadKey (role (users ! userIndex)) (role userData),
                            active := spreadKey (active (users ! userIndex)) (active userData),
                            user_id := spreadField (user_id (users ! userIndex)) (userData_id userData),
                            user_updatedAt := now \<rparr>
                  in (Inr updatedUser, s \<lparr> inMemoryUsers := users[userIndex := updatedUser] \<rparr>))))"

definition deleteUser :: "jsstring \<Rightarrow> store \<Rightarrow> (raisedError + jsstring) \<times> store" where
  "deleteUser ident s =
     (let users = inMemoryUsers s in
      case findIndex (\<lambda>u. user_id u = ident) users of
        None \<Rightarrow> (Inl (AppError_notFound (js ''Usuario con ID '' @ ident @ js '' no encontrado'')), s)
      | Some userIndex \<Rightarrow>
          (Inr (js ''Usuario con ID '' @ ident @ js '' eliminado correctamente''),
           s \<lparr> inMemoryUsers := filter (\<lambda>u. user_id u \<noteq> ident) users \<rparr>))"

section \<open>Task controller (controllers/taskController.ts)\<close>

text \<open>\<^verbatim>\<open>enum TaskStatus\<close> and \<^verbatim>\<open>Object.values(TaskStatus)\<close>\<close>

definition PENDING :: jsstring where
  "PENDING = js ''pending''"

definition IN_PROGRESS :: jsstring where
  "IN_PROGRESS = js ''in_progress''"

definition COMPLETED :: jsstring where
  "COMPLETED = js ''completed''"

definition TaskStatus_values :: "jsstring list" where
  "TaskStatus_values = [PENDING, IN_PROGRESS, COMPLETED]"

text \<open>\<^verbatim>\<open>{ ...task, user: u }\<close>\<close>

definition withUser :: "'a taskDoc \<Rightarrow> 'b \<Rightarrow> 'b taskDoc" where
  "withUser task u =
     \<lparr> task_id = task_id task,
       task_title = task_title task,
       task_description = task_description task,
       task_status = task_status task,
       task_user = u,
       task_createdAt = task_createdAt task,
       task_updatedAt = task_updatedAt task \<rparr>"


fun template :: "jsstring option \<Rightarrow> jsstring" where
  "template None = js ''undefined''"
| "template (Some v) = v"

text \<open>
  \<open>getAllTasks\<close>, \<open>getTaskById\<close>, \<open>createTask\<close>, \<open>updateTaskStatus\<close> and \<open>deleteTask\<close> are
  embedded with their in-memory branch, on the in-memory store; \<open>updateTask\<close> and
  \<open>moveTaskToUser\<close> with both branches, on the system.
\<close>

definition getAllTasks :: "store \<Rightarrow> (raisedError + populatedUser taskDoc list) \<times> store" where
  "getAllTasks s =
     (let tasks = inMemoryTasks s;
          users = inMemoryUsers s;
          populatedTasks =
            map (\<lambda>task. withUser task
                   (case find (\<lambda>u. user_id u = task_user task) users of
                      Some u \<Rightarrow> UserDocument u
                    | None \<Rightarrow> UserId (task_user task))) tasks
      in (Inr populatedTasks, s))"

definition getTaskById :: "jsstring \<Rightarrow> store \<Rightarrow> (raisedError + populatedUser taskDoc) \<times> store" where
  "getTaskById ident s =
     (let tasks = inMemoryTasks s;
          users = inMemoryUsers s
      in case find (\<lambda>t. task_id t = ident) tasks of
           None \<Rightarrow> (Inl (AppError_notFound (js ''Tarea con ID '' @ ident @ js '' no encontrada'')), s)
         | Some task \<Rightarrow>
             (let populatedTask =
                    withUser task
                      (case find (\<lambda>u. user_id u = task_user task) users of
                         Some u \<Rightarrow> UserDocument u
                       | None \<Rightarrow> UserId (task_user task))
              in (Inr populatedTask, s)))"


text \<open>
  \<open>updateTask\<close>. \<^verbatim>\<open>if (taskData.user)\<close> holds for a \<^verbatim>\<open>user\<close> key with a non-empty string.
  The in-memory branch looks the task up and then probes the user; the other branch
  probes the user and then hands the update to the library.
\<close>

definition updateTask ::
  "library \<Rightarrow> int \<Rightarrow> jsstring \<Rightarrow> taskData \<Rightarrow> system \<Rightarrow> (raisedError + populatedUser taskDoc) \<times> system" where
  "updateTask lib now ident taskData s =
     (if inMemoryMode s then
        (let tasks = inMemoryTasks (memory s);
             users = inMemoryUsers (memory s)
         in case findIndex (\<lambda>t. task_id t = ident) tasks of
              None \<Rightarrow> (Inl (AppError_notFound (js ''Tarea con ID '' @ ident @ js '' no encontrada'')), s)
            | Some taskIndex \<Rightarrow>
                if (case user taskData of
                      None \<Rightarrow> False
                    | Some userId \<Rightarrow> userId \<noteq> [] \<and> \<not> list_ex (\<lambda>u. user_id u = userId) users)
                then
                  (Inl (AppError_badRequest
                          (js ''Usuario con ID '' @ template (user taskData) @ js '' no existe'')), s)
                else
                  (let updatedTask =
                         (tasks ! taskIndex)
                           \<lparr> task_title := spreadField (task_title (tasks ! taskIndex)) (title taskData),
                             task_description :=
                               spreadField (task_description (tasks ! taskIndex)) (description taskData),
                             task_status := spreadField (task_status (tasks ! taskIndex)) (status taskData),
                             task_user := spreadField (task_user (tasks ! taskIndex)) (user taskData),
                             task_updatedAt := now \<rparr>;
                       updatedTasks = tasks[taskIndex := updatedTask];
                       populatedTask =
                         withUser updatedTask
                           (case find (\<lambda>u. user_id u = task_user updatedTask) users of
                              Some u \<Rightarrow> UserDocument u
                            | None \<Rightarrow> UserUndefined)
                   in (Inr populatedTask,
                       s \<lparr> memory := (memory s) \<lparr> inMemoryTasks := updatedTasks \<rparr> \<rparr>)))
      else
        (case (case user taskData of
                 None \<Rightarrow> Inr ()
               | Some userId \<Rightarrow>
                   if userId = [] then Inr ()
                   else
                     (case User_exists lib userId (database s) of
                        Inl error \<Rightarrow> Inl error
                      | Inr userExists \<Rightarrow>
                          if \<not> userExists then
                            Inl (AppError_badRequest
                                   (js ''Usuario con ID '' @ userId @ js '' no existe''))
                          else Inr ())) of
           Inl error \<Rightarrow> (Inl error, s)
         | Inr _ \<Rightarrow>
             (case Task_findByIdAndUpdate lib now ident taskData (database s) of
                (Inl error, db) \<Rightarrow> (Inl error, s \<lparr> database := db \<rparr>)
              | (Inr None, db) \<Rightarrow>
                  (Inl (AppError_notFound (js ''Tarea con ID '' @ ident @ js '' no encontrada'')),
                   s \<lparr> database := db \<rparr>)
              | (Inr (Some task), db) \<Rightarrow> (Inr task, s \<lparr> database := db \<rparr>))))"

text \<open>
  \<open>updateTaskStatus\<close>. The message is the one of the source file, where the code unit
  \<open>0xCE58\<close> stands in the place of the accented letter.
\<close>

definition updateTaskStatus ::
  "int \<Rightarrow> jsstring \<Rightarrow> jsstring \<Rightarrow> store \<Rightarrow> (raisedError + populatedUser taskDoc) \<times> store" where
  "updateTaskStatus now ident newStatus s =
     (if newStatus \<notin> set TaskStatus_values then
        (Inl (AppError_badRequest
                (js ''Estado '' @ [0x27] @ newStatus @ [0x27] @ js '' no v'' @ [0xCE58] @ js ''lido'')), s)
      else
        (let tasks = inMemoryTasks s;
             users = inMemoryUsers s
         in case findIndex (\<lambda>t. task_id t = ident) tasks of
              None \<Rightarrow> (Inl (AppError_notFound (js ''Tarea con ID '' @ ident @ js '' no encontrada'')), s)
            | Some taskIndex \<Rightarrow>
                (let updatedTask =
                       (tasks ! taskIndex) \<lparr> task_status := newStatus, task_updatedAt := now \<rparr>;
                     updatedTasks = tasks[taskIndex := updatedTask];
                     populatedTask =
                       withUser updatedTask
                         (case find (\<lambda>u. user_id u = task_user updatedTask) users of
                            Some u \<Rightarrow> UserDocument u
                          | None \<Rightarrow> UserUndefined)
                 in (Inr populatedTask, s \<lparr> inMemoryTasks := updatedTasks \<rparr>))))"

text \<open>\<open>moveTaskToUser\<close>: both branches probe the user first.\<close>

definition moveTaskToUser ::
  "library \<Rightarrow> int \<Rightarrow> jsstring \<Rightarrow> jsstring \<Rightarrow> system \<Rightarrow> (raisedError + populatedUser taskDoc) \<times> system" where
  "moveTaskToUser lib now ident userId s =
     (if inMemoryMode s then
        (let tasks = inMemoryTasks (memory s);
             users = inMemoryUsers (memory s);
             userExists = list_ex (\<lambda>u. user_id u = userId) users
         in if \<not> userExists then
              (Inl (AppError_badRequest (js ''Usuario con ID '' @ userId @ js '' no existe'')), s)
            else
              (case findIndex (\<lambda>t. task_id t = ident) tasks of
                 None \<Rightarrow>
                   (Inl (AppError_notFound (js ''Tarea con ID '' @ ident @ js '' no encontrada'')), s)
               | Some taskIndex \<Rightarrow>
                   (let updatedTask =
                          (tasks ! taskIndex) \<lparr> task_user := userId, task_updatedAt := now \<rparr>;
                        updatedTasks = tasks[taskIndex := updatedTask];
                        populatedTask =
                          withUser updatedTask
                            (case find (\<lambda>u. user_id u = userId) users of
                               Some u \<Rightarrow> UserDocument u
                             | None \<Rightarrow> UserUndefined)
                    in (Inr populatedTask,
                        s \<lparr> memory := (memory s) \<lparr> inMemoryTasks := updatedTasks \<rparr> \<rparr>))))
      else
        (case User_exists lib userId (database s) of
           Inl error \<Rightarrow> (Inl error, s)
         | Inr userExists \<Rightarrow>
             if \<not> userExists then
               (Inl (AppError_badRequest (js ''Usuario con ID '' @ userId @ js '' no existe'')), s)
             else
               (case Task_findByIdAndUpdate lib now ident
                       \<lparr> title = None, description = None, status = None, user = Some userId \<rparr>
                       (database s) of
                  (Inl error, db) \<Rightarrow> (Inl error, s \<lparr> database := db \<rparr>)
                | (Inr None, db) \<Rightarrow>
                    (Inl (AppError_notFound (js ''Tarea con ID '' @ ident @ js '' no encontrada'')),
                     s \<lparr> database := db \<rparr>)
                | (Inr (Some task), db) \<Rightarrow> (Inr task, s \<lparr> database := db \<rparr>))))"

definition deleteTask :: "jsstring \<Rightarrow> store \<Rightarrow> (raisedError + jsstring) \<times> store" where
  "deleteTask ident s =
     (let tasks = inMemoryTasks s in
      case findIndex (\<lambda>t. task_id t = ident) tasks of
        None \<Rightarrow> (Inl (AppError_notFound (js ''Tarea con ID '' @ ident @ js '' no encontrada'')), s)
      | Some taskIndex \<Rightarrow>
          (Inr (js ''Tarea con ID '' @ ident @ js '' eliminada correctamente''),
           s \<lparr> inMemoryTasks := filter (\<lambda>t. task_id t \<noteq> ident) tasks \<rparr>))"

section \<open>The validation rules of the specification\<close>

text \<open>
  The rules of the validation layer as the specification words them, one function per
  field, each on the value read from its own field (\<^verbatim>\<open>undefined\<close> for an absent one) and
  each giving the messages of the violations of that field: name required, a string,
  trimmed length within 2 and 50; email required, a string, matching the pattern; age
  optional, otherwise an integer number within 0 and 120; role optional, otherwise one of
  the three roles; active optional, otherwise a boolean.
\<close>

fun nameRule :: "jsval \<Rightarrow> jsstring list" where
  "nameRule (JStr s) =
     (if s = [] then [js ''El nombre es obligatorio'']
      else (if length (trim s) < 2 then [js ''El nombre debe tener al menos 2 caracteres''] else [])
         @ (if 50 < length (trim s)
            then [js ''El nombre no puede tener m'' @ [0xE1] @ js ''s de 50 caracteres''] else []))"
| "nameRule v =
     (if truthy v then [js ''El nombre debe ser una cadena de texto'']
      else [js ''El nombre es obligatorio''])"

fun emailRule :: "jsval \<Rightarrow> jsstring list" where
  "emailRule (JStr s) =
     (if s = [] then [js ''El email es obligatorio'']
      else if emailRegex_test s then []
      else [js ''El formato del email no es v'' @ [0xE1] @ js ''lido''])"
| "emailRule v =
     (if truthy v then [js ''El email debe ser una cadena de texto'']
      else [js ''El email es obligatorio''])"

fun ageRule :: "jsval \<Rightarrow> jsstring list" where
  "ageRule JUndefined = []"
| "ageRule (JNum n) =
     (if isInteger n then [] else [js ''La edad debe ser un n'' @ [0xFA] @ js ''mero entero''])
     @ (if numLess n 0 then [js ''La edad no puede ser negativa''] else [])
     @ (if numGreater n 120 then [js ''La edad no puede ser mayor a 120 a'' @ [0xF1] @ js ''os''] else [])"
| "ageRule v = [js ''La edad debe ser un n'' @ [0xFA] @ js ''mero'']"

fun roleRule :: "jsval \<Rightarrow> jsstring list" where
  "roleRule JUndefined = []"
| "roleRule (JStr r) =
     (if r \<in> {js ''user'', js ''admin'', js ''editor''} then []
      else [js ''El rol '' @ [0x27] @ r @ [0x27] @ js '' no es v'' @ [0xE1]
            @ js ''lido. Roles v'' @ [0xE1] @ js ''lidos: user, admin, editor''])"
| "roleRule v = [js ''El rol debe ser una cadena de texto'']"

fun activeRule :: "jsval \<Rightarrow> jsstring list" where
  "activeRule JUndefined = []"
| "activeRule (JBool b) = []"
| "activeRule v = [js ''El campo active debe ser un valor booleano'']"

definition violations :: "'a userFields_scheme \<Rightarrow> jsstring list" where
  "violations userData =
     nameRule (getProp (name userData))
     @ emailRule (getProp (email userData))
     @ ageRule (getProp (age userData))
     @ roleRule (getProp (role userData))
     @ activeRule (getProp (active userData))"

section \<open>Example data\<close>

text \<open>The scenario of the specification: the user Ann Lee and her task.\<close>

definition annPayload :: userData where
  "annPayload =
     \<lparr> name = Some (JStr (js ''Ann Lee'')), email = Some (JStr (js ''ann@example.com'')),
       age = None, role = None, active = None, userData_id = None \<rparr>"

definition annPayloadUpper :: userData where
  "annPayloadUpper =
     \<lparr> name = Some (JStr (js ''Ann Lee'')), email = Some (JStr (js ''Ann@Example.com'')),
       age = None, role = None, active = None, userData_id = None \<rparr>"

definition emptyPayload :: userData where
  "emptyPayload =
     \<lparr> name = None, email = None, age = None, role = None, active = None, userData_id = None \<rparr>"

definition emailOnlyPayload :: userData where
  "emailOnlyPayload =
     \<lparr> name = None, email = Some (JStr (js ''ann.lee@example.com'')),
       age = None, role = None, active = None, userData_id = None \<rparr>"

definition badPayload :: userData where
  "badPayload =
     \<lparr> name = Some (JStr (js ''A'')), email = Some (JStr (js ''ann.example.com'')),
       age = Some (JNum (Fin (- 1 / 2))), role = Some (JStr (js ''root'')),
       active = Some (JStr (js ''yes'')), userData_id = None \<rparr>"

text \<open>
  A valid payload with blanks around the name, capitals in the email and every optional
  field set.
\<close>

definition boPayload :: userData where
  "boPayload =
     \<lparr> name = Some (JStr (js '' Bo '')), email = Some (JStr (js ''Bo@Example.com'')),
       age = Some (JNum (Fin 30)), role = Some (JStr (js ''admin'')),
       active = Some (JBool False), userData_id = None \<rparr>"

text \<open>What the database makes of that payload.\<close>

definition boDocument :: userDoc where
  "boDocument =
     \<lparr> name = Some (JStr (js ''Bo'')), email = Some (JStr (js ''bo@example.com'')),
       age = Some (JNum (Fin 30)), role = Some (JStr (js ''admin'')), active = Some (JBool False),
       user_id = js ''65a1b2c3d4e5f60718293a4c'', user_createdAt = 3000, user_updatedAt = 3000 \<rparr>"

text \<open>A valid payload in the normal form of the schema, and the user that the in-memory store makes of it.\<close>

definition boNormalPayload :: userData where
  "boNormalPayload =
     \<lparr> name = Some (JStr (js ''Bo Chen'')), email = Some (JStr (js ''bo@example.com'')),
       age = Some (JNum (Fin 30)), role = Some (JStr (js ''admin'')),
       active = Some (JBool False), userData_id = None \<rparr>"

definition boChen :: userDoc where
  "boChen =
     \<lparr> name = Some (JStr (js ''Bo Chen'')), email = Some (JStr (js ''bo@example.com'')),
       age = Some (JNum (Fin 30)), role = Some (JStr (js ''admin'')), active = Some (JBool False),
       user_id = js ''U2'', user_createdAt = 3000, user_updatedAt = 3001 \<rparr>"

definition annLee :: userDoc where
  "annLee =
     \<lparr> name = Some (JStr (js ''Ann Lee'')), email = Some (JStr (js ''ann@example.com'')),
       age = None, role = Some (JStr (js ''user'')), active = Some (JBool True),
       user_id = js ''U1'', user_createdAt = 1000, user_updatedAt = 1000 \<rparr>"

definition writeReport :: "jsstring taskDoc" where
  "writeReport =
     \<lparr> task_id = js ''T1'', task_title = js ''Write report'', task_description = [],
       task_status = PENDING, task_user = js ''U1'',
       task_createdAt = 2000, task_updatedAt = 2000 \<rparr>"

definition taskForU2 :: taskData where
  "taskForU2 =
     \<lparr> title = Some (js ''Review''), description = None, status = None, user = Some (js ''U2'') \<rparr>"

definition emptyStore :: store where
  "emptyStore = \<lparr> inMemoryUsers = [], inMemoryTasks = [] \<rparr>"

definition store1 :: store where
  "store1 = \<lparr> inMemoryUsers = [annLee], inMemoryTasks = [writeReport] \<rparr>"

text \<open>The store after Ann Lee has been deleted: her task stays, with a dangling reference.\<close>

definition storeDangling :: store where
  "storeDangling = \<lparr> inMemoryUsers = [], inMemoryTasks = [writeReport] \<rparr>"

text \<open>
  A database that holds Ann Lee and no task, and three ObjectIds that it does not hold.
\<close>

definition annDocument :: userDoc where
  "annDocument =
     \<lparr> name = Some (JStr (js ''Ann Lee'')), email = Some (JStr (js ''ann@example.com'')),
       age = None, role = Some (JStr (js ''user'')), active = Some (JBool True),
       user_id = js ''65a1b2c3d4e5f60718293a4b'', user_createdAt = 1000, user_updatedAt = 1000 \<rparr>"

definition database1 :: mongodb where
  "database1 = \<lparr> users_collection = [annDocument], tasks_collection = [] \<rparr>"

definition boObjectId :: jsstring where
  "boObjectId = js ''65a1b2c3d4e5f60718293a4c''"

definition missingUserId :: jsstring where
  "missingUserId = js ''65a1b2c3d4e5f60718293a4d''"

definition missingTaskId :: jsstring where
  "missingTaskId = js ''65a1b2c3d4e5f60718293a4e''"

definition taskForMissingUser :: taskData where
  "taskForMissingUser =
     \<lparr> title = Some (js ''Review''), description = None, status = None,
       user = Some missingUserId \<rparr>"

text \<open>The system after \<open>connectDB\<close> has failed, and after it has succeeded.\<close>

definition inMemory :: "store \<Rightarrow> system" where
  "inMemory st =
     \<lparr> inMemoryMode = True, memory = st,
       database = \<lparr> users_collection = [], tasks_collection = [] \<rparr> \<rparr>"

definition durable :: "mongodb \<Rightarrow> system" where
  "durable db =
     \<lparr> inMemoryMode = False, memory = \<lparr> inMemoryUsers = [], inMemoryTasks = [] \<rparr>,
       database = db \<rparr>"

text \<open>
  A library for the examples: some wording for the messages, and a task update that finds
  no document (the answer on a collection without tasks, for an id that is an ObjectId and
  an update that the library accepts).
\<close>

definition exampleLibrary :: library where
  "exampleLibrary =
     \<lparr> castErrorMessage = (\<lambda>v. js ''Cast to ObjectId failed for value '' @ v),
       validationFailedMessage = (\<lambda>v. js ''User validation failed: _id: Cast to ObjectId failed for value '' @ v),
       duplicateKeyMessage = (\<lambda>key v. js ''E11000 duplicate key error, key '' @ key),
       Task_findByIdAndUpdate = (\<lambda>now ident update db. (Inr None, db)) \<rparr>"


section \<open>Auxiliary facts\<close>

lemma js_simps: "js [] = []" "js (c # cs) = of_char c # js cs"
  by (simp_all add: js_def)

lemmas char_defs = isWhiteSpace_def isLetter_def isDigit_def localChar_def domainChar_def

lemmas hex_defs = castObjectId_def isHexDigit_def toLowerCase_def

lemma findIndex_None: "findIndex p xs = None \<longleftrightarrow> (\<forall>x \<in> set xs. \<not> p x)"
  by (induction xs) (auto split: option.splits)

lemma findIndex_Some:
  "findIndex p xs = Some i \<Longrightarrow> i < length xs \<and> p (xs ! i) \<and> (\<forall>j < i. \<not> p (xs ! j))"
proof (induction xs arbitrary: i)
  case Nil
  then show ?case by simp
next
  case (Cons x xs)
  show ?case
  proof (cases "p x")
    case True
    with Cons.prems show ?thesis by simp
  next
    case False
    with Cons.prems obtain k where k: "findIndex p xs = Some k" "i = Suc k"
      by (auto split: option.splits)
    from Cons.IH [OF k(1)] False k(2) show ?thesis
      by (auto simp: nth_Cons split: nat.splits)
  qed
qed

lemma find_snoc_fresh:
  "\<forall>x \<in> set xs. \<not> p x \<Longrightarrow> p y \<Longrightarrow> find p (xs @ [y]) = Some y"
  by (induction xs) auto

lemma find_None_all: "\<forall>x \<in> set xs. \<not> p x \<Longrightarrow> find p xs = None"
  by (induction xs) auto

lemma keys_empty:
  "keys userData = [] \<longleftrightarrow>
     userData_id userData = None \<and> name userData = None \<and> email userData = None
     \<and> age userData = None \<and> role userData = None \<and> active userData = None"
  by (simp add: keys_def)

subsection \<open>The matcher accepts the language of the email pattern\<close>

lemma takeWhile_all_then: "list_all p xs \<Longrightarrow> \<not> p y \<Longrightarrow> takeWhile p (xs @ y # ys) = xs"
  by (induction xs) auto

lemma dropWhile_all_then: "list_all p xs \<Longrightarrow> \<not> p y \<Longrightarrow> dropWhile p (xs @ y # ys) = y # ys"
  by (induction xs) auto

lemma list_all_takeWhile: "list_all p (takeWhile p xs)"
  by (induction xs) auto

lemma domainTld_iff:
  "domainTld r \<longleftrightarrow>
     (\<exists>d t. r = d @ [0x2E] @ t \<and> d \<noteq> [] \<and> list_all domainChar d
        \<and> 2 \<le> length t \<and> list_all isLetter t)"
proof
  assume a: "domainTld r"
  define tld where "tld = takeWhile isLetter (rev r)"
  define rest where "rest = dropWhile isLetter (rev r)"
  from a obtain d where d: "rest = 0x2E # d" "d \<noteq> []" "list_all domainChar d"
    and l: "2 \<le> length tld"
    by (auto simp: domainTld_def Let_def tld_def rest_def split: list.splits)
  have "rev r = tld @ rest"
    by (simp add: tld_def rest_def)
  then have "r = rev rest @ rev tld"
    by (metis rev_append rev_rev_ident)
  with d have "r = rev d @ [0x2E] @ rev tld"
    by simp
  moreover have "list_all isLetter (rev tld)"
    using list_all_takeWhile [of isLetter "rev r"] by (simp add: tld_def list_all_iff)
  ultimately show "\<exists>d t. r = d @ [0x2E] @ t \<and> d \<noteq> [] \<and> list_all domainChar d
      \<and> 2 \<le> length t \<and> list_all isLetter t"
    using d l by (intro exI [of _ "rev d"] exI [of _ "rev tld"]) (simp add: list_all_iff)
next
  assume "\<exists>d t. r = d @ [0x2E] @ t \<and> d \<noteq> [] \<and> list_all domainChar d
      \<and> 2 \<le> length t \<and> list_all isLetter t"
  then obtain d t where r: "r = d @ [0x2E] @ t" and d: "d \<noteq> []" "list_all domainChar d"
    and t: "2 \<le> length t" "list_all isLetter t"
    by blast
  have nl: "\<not> isLetter 0x2E"
    by (simp add: isLetter_def)
  have rr: "rev r = rev t @ 0x2E # rev d"
    by (simp add: r)
  from t(2) have lt: "list_all isLetter (rev t)"
    by (simp add: list_all_iff)
  show "domainTld r"
    using d t
    by (simp add: domainTld_def rr takeWhile_all_then [OF lt nl] dropWhile_all_then [OF lt nl]
        list_all_iff)
qed

lemma emailRegex_test_iff_pattern: "emailRegex_test s \<longleftrightarrow> emailPattern s"
proof
  assume a: "emailRegex_test s"
  define l where "l = takeWhile localChar s"
  from a obtain r where r: "dropWhile localChar s = 0x40 # r" "domainTld r" and l: "l \<noteq> []"
    by (auto simp: emailRegex_test_def Let_def l_def split: list.splits)
  have "s = l @ dropWhile localChar s"
    by (simp add: l_def)
  with r(1) have s: "s = l @ [0x40] @ r"
    by simp
  from r(2) obtain d t where dt: "r = d @ [0x2E] @ t" "d \<noteq> []" "list_all domainChar d"
      "2 \<le> length t" "list_all isLetter t"
    by (auto simp: domainTld_iff)
  have "list_all localChar l"
    by (simp add: l_def list_all_takeWhile)
  with s dt l show "emailPattern s"
    unfolding emailPattern_def by (intro exI [of _ l] exI [of _ d] exI [of _ t]) simp
next
  assume "emailPattern s"
  then obtain l d t where s: "s = l @ [0x40] @ d @ [0x2E] @ t"
    and l: "l \<noteq> []" "list_all localChar l"
    and dt: "d \<noteq> []" "list_all domainChar d" "2 \<le> length t" "list_all isLetter t"
    unfolding emailPattern_def by blast
  have na: "\<not> localChar 0x40"
    by (simp add: localChar_def isLetter_def isDigit_def)
  have s': "s = l @ 0x40 # (d @ [0x2E] @ t)"
    by (simp add: s)
  have "domainTld (d @ [0x2E] @ t)"
    using dt by (auto simp: domainTld_iff)
  then show "emailRegex_test s"
    using l(1)
    by (simp add: emailRegex_test_def s' takeWhile_all_then [OF l(2) na]
        dropWhile_all_then [OF l(2) na])
qed

subsection \<open>What the error handler makes of the errors the controllers raise\<close>

lemma handleError_badRequest:
  "handleError (Thrown (AppError_badRequest m)) =
     Inr \<lparr> api_type = BAD_REQUEST, api_message = jsOr (JStr m) (JStr (js ''Solicitud incorrecta'')),
           api_details = None, api_status = 400 \<rparr>"
  by (simp add: handleError_def AppError_badRequest_def AppError_def js_simps)

lemma handleError_notFound:
  "handleError (Thrown (AppError_notFound m)) =
     Inr \<lparr> api_type = NOT_FOUND, api_message = jsOr (JStr m) (JStr (js ''Recurso no encontrado'')),
           api_details = None, api_status = 404 \<rparr>"
  by (simp add: handleError_def AppError_notFound_def AppError_def js_simps)

lemma handleError_validation:
  "handleError (Thrown (AppError_validation m ds)) =
     Inr \<lparr> api_type = VALIDATION,
           api_message = jsOr (JStr m) (JStr (js ''Error de validaci'' @ [0xF3] @ js ''n'')),
           api_details = Some (JArr ds), api_status = 400 \<rparr>"
  by (simp add: handleError_def AppError_validation_def AppError_def js_simps jsOr_def)

lemma handleError_emailYaRegistrado:
  "handleError (Thrown (emailYaRegistrado e)) =
     Inr \<lparr> api_type = DUPLICATE, api_message = JStr (js ''Registro duplicado''),
           api_details = Some (JObj [(js ''email'', e)]), api_status = 409 \<rparr>"
  by (simp add: handleError_def emailYaRegistrado_def)

lemma handleError_castError:
  "handleError (Thrown (castError lib v)) =
     Inr \<lparr> api_type = BAD_REQUEST, api_message = JStr (js ''ID no v'' @ [0xE1] @ js ''lido''),
           api_details = Some (JStr (castErrorMessage lib v)), api_status = 400 \<rparr>"
  by (simp add: handleError_def castError_def)

lemma handleError_duplicateKey:
  "handleError (Thrown (duplicateKey lib key v)) =
     Inr \<lparr> api_type = DUPLICATE, api_message = JStr (js ''Registro duplicado''),
           api_details = Some (JObj [(key, v)]), api_status = 409 \<rparr>"
  by (simp add: handleError_def duplicateKey_def)

text \<open>
  On an object the handler returns: one of the five pairs of type and status, and the
  server error for an object of none of the known categories.
\<close>

lemma handleError_object:
  "\<exists>env. handleError (Thrown error) = Inr env
     \<and> (api_type env, api_status env)
          \<in> {(VALIDATION, 400), (NOT_FOUND, 404), (DUPLICATE, 409), (BAD_REQUEST, 400), (SERVER, 500)}"
  unfolding handleError_def by (simp split: if_splits)

lemma handleError_default:
  assumes "err_class error = OtherError"
    and "\<not> jsStrictEq (err_code error) (JNum (Fin 11000))"
    and "\<not> jsStrictEq (err_name error) (JStr (js ''NotFoundError''))"
    and "\<not> jsStrictEq (err_name error) (JStr (js ''BadRequestError''))"
    and "\<not> jsStrictEq (err_name error) (JStr (js ''ValidationError''))"
  shows "handleError (Thrown error) =
           Inr \<lparr> api_type = SERVER, api_message = JStr (js ''Error interno del servidor''),
                 api_details = Some (err_message error), api_status = 500 \<rparr>"
  using assms by (simp add: handleError_def)

section \<open>Validation\<close>

lemma name_block:
  "(if \<not> truthy v then
      errors @ [js ''El nombre es obligatorio'']
    else if typeof v \<noteq> TString then
      errors @ [js ''El nombre debe ser una cadena de texto'']
    else
      (let errors =
             (if length (trim (asString v)) < 2
              then errors @ [js ''El nombre debe tener al menos 2 caracteres'']
              else errors);
           errors =
             (if length (trim (asString v)) > 50
              then errors @ [js ''El nombre no puede tener m'' @ [0xE1] @ js ''s de 50 caracteres'']
              else errors)
       in errors)) = errors @ nameRule v"
  by (cases v) (simp_all add: Let_def)

lemma email_block:
  "(if \<not> truthy v then
      errors @ [js ''El email es obligatorio'']
    else if typeof v \<noteq> TString then
      errors @ [js ''El email debe ser una cadena de texto'']
    else if \<not> emailRegex_test (asString v) then
      errors @ [js ''El formato del email no es v'' @ [0xE1] @ js ''lido'']
    else errors) = errors @ emailRule v"
  by (cases v) simp_all

lemma age_block:
  "(if v \<noteq> JUndefined then
      (if typeof v \<noteq> TNumber then
         errors @ [js ''La edad debe ser un n'' @ [0xFA] @ js ''mero'']
       else
         (let errors =
                (if \<not> isInteger (asNumber v)
                 then errors @ [js ''La edad debe ser un n'' @ [0xFA] @ js ''mero entero'']
                 else errors);
              errors =
                (if numLess (asNumber v) 0
                 then errors @ [js ''La edad no puede ser negativa'']
                 else errors);
              errors =
                (if numGreater (asNumber v) 120
                 then errors @ [js ''La edad no puede ser mayor a 120 a'' @ [0xF1] @ js ''os'']
                 else errors)
          in errors))
    else errors) = errors @ ageRule v"
  by (cases v) (simp_all add: Let_def)

lemma join_validRoles: "join (js '', '') validRoles = js ''user, admin, editor''"
  by (simp add: validRoles_def js_simps)

lemma role_block:
  "(if v \<noteq> JUndefined then
      (if typeof v \<noteq> TString then
         errors @ [js ''El rol debe ser una cadena de texto'']
       else if asString v \<notin> set validRoles then
         errors @ [js ''El rol '' @ [0x27] @ asString v @ [0x27]
                   @ js '' no es v'' @ [0xE1] @ js ''lido. Roles v'' @ [0xE1] @ js ''lidos: ''
                   @ join (js '', '') validRoles]
       else errors)
    else errors) = errors @ roleRule v"
  by (cases v) (simp_all add: join_validRoles, simp_all add: validRoles_def js_simps)

lemma active_block:
  "(if v \<noteq> JUndefined \<and> typeof v \<noteq> TBoolean
    then errors @ [js ''El campo active debe ser un valor booleano'']
    else errors) = errors @ activeRule v"
  by (cases v) simp_all

lemma floor_minus_half: "\<lfloor>- (1 / 2) :: rat\<rfloor> = - 1"
  by (simp add: floor_eq_iff)

lemma minus_half_not_integer: "\<not> isInteger (Fin (- 1 / 2))"
  using floor_minus_half by (simp del: of_int_floor_cancel)

text \<open>
  Claim C8. Validation of a user payload never stops at the first violation. For every
  payload the validator applies the rule of each of the five fields (name, email, age,
  role, active) to the value of that field alone, whatever the other fields hold, and
  either finds no violation and returns, or throws one validation error whose details are
  the messages of all the violations, in the order of the fields.
\<close>

theorem validateUserData_collects_all:
  "validateUserData userData =
     (if violations userData = [] then Inr ()
      else Inl (AppError_validation (js ''Error de validaci'' @ [0xF3] @ js ''n'')
                  (map JStr (violations userData))))"
  unfolding validateUserData_def Let_def
    name_block [unfolded Let_def] email_block age_block [unfolded Let_def] role_block active_block
  by (simp add: violations_def)

text \<open>
  A payload that breaks a rule in every field: a name of one character, an email without
  \<^verbatim>\<open>@\<close>, the age \<open>-0.5\<close> (two violations), an unknown role and a string for active. The one
  error carries the six messages.
\<close>

theorem validateUserData_collects_all_witness:
  "validateUserData badPayload =
     Inl (AppError_validation (js ''Error de validaci'' @ [0xF3] @ js ''n'')
       [JStr (js ''El nombre debe tener al menos 2 caracteres''),
        JStr (js ''El formato del email no es v'' @ [0xE1] @ js ''lido''),
        JStr (js ''La edad debe ser un n'' @ [0xFA] @ js ''mero entero''),
        JStr (js ''La edad no puede ser negativa''),
        JStr (js ''El rol '' @ [0x27] @ js ''root'' @ [0x27] @ js '' no es v'' @ [0xE1]
              @ js ''lido. Roles v'' @ [0xE1] @ js ''lidos: user, admin, editor''),
        JStr (js ''El campo active debe ser un valor booleano'')])"
  using validateUserData_collects_all [of badPayload] minus_half_not_integer
  by (simp add: violations_def badPayload_def trim_def emailRegex_test_def char_defs js_simps
      del: isInteger.simps)

section \<open>Error normalization\<close>


section \<open>Tasks\<close>



text \<open>
  Claim C6. \<open>updateTaskStatus\<close> checks its status argument against the three values of
  the task status enum before it reads the store. For every status that is none of
  pending, in_progress and completed, in every store, it fails with the bad-request error
  whose message names the value, reported as BadRequestError, and the store is left as it
  was. For the id of a stored task and one of the three values it succeeds: the returned
  task has that id, the new status and the time of the call as its \<open>updatedAt\<close>, and the
  stored task is replaced by the one with the new status and \<open>updatedAt\<close>.
\<close>

theorem updateTaskStatus_validates:
  "(newStatus \<notin> {PENDING, IN_PROGRESS, COMPLETED} \<longrightarrow>
      updateTaskStatus now ident newStatus s
        = (Inl (AppError_badRequest
                  (js ''Estado '' @ [0x27] @ newStatus @ [0x27] @ js '' no v'' @ [0xCE58] @ js ''lido'')), s)
      \<and> handleError (Thrown (AppError_badRequest
            (js ''Estado '' @ [0x27] @ newStatus @ [0x27] @ js '' no v'' @ [0xCE58] @ js ''lido'')))
          = Inr \<lparr> api_type = BAD_REQUEST,
                  api_message =
                    JStr (js ''Estado '' @ [0x27] @ newStatus @ [0x27]
                          @ js '' no v'' @ [0xCE58] @ js ''lido''),
                  api_details = None, api_status = 400 \<rparr>)
   \<and> (newStatus \<in> {PENDING, IN_PROGRESS, COMPLETED} \<and> ident \<in> task_id ` set (inMemoryTasks s) \<longrightarrow>
        (\<exists>t s'. updateTaskStatus now ident newStatus s = (Inr t, s')
           \<and> task_id t = ident \<and> task_status t = newStatus \<and> task_updatedAt t = now
           \<and> (\<exists>i < length (inMemoryTasks s). task_id (inMemoryTasks s ! i) = ident
                 \<and> s' = s \<lparr> inMemoryTasks := (inMemoryTasks s)
                      [i := (inMemoryTasks s ! i) \<lparr> task_status := newStatus, task_updatedAt := now \<rparr>] \<rparr>)))"
proof (intro conjI impI)
  assume "newStatus \<notin> {PENDING, IN_PROGRESS, COMPLETED}"
  then show "updateTaskStatus now ident newStatus s
        = (Inl (AppError_badRequest
                  (js ''Estado '' @ [0x27] @ newStatus @ [0x27] @ js '' no v'' @ [0xCE58] @ js ''lido'')), s)"
    by (simp add: updateTaskStatus_def TaskStatus_values_def)
next
  show "handleError (Thrown (AppError_badRequest
            (js ''Estado '' @ [0x27] @ newStatus @ [0x27] @ js '' no v'' @ [0xCE58] @ js ''lido'')))
          = Inr \<lparr> api_type = BAD_REQUEST,
                  api_message =
                    JStr (js ''Estado '' @ [0x27] @ newStatus @ [0x27]
                          @ js '' no v'' @ [0xCE58] @ js ''lido''),
                  api_details = None, api_status = 400 \<rparr>"
    by (simp add: handleError_badRequest jsOr_def js_simps)
next
  assume a: "newStatus \<in> {PENDING, IN_PROGRESS, COMPLETED} \<and> ident \<in> task_id ` set (inMemoryTasks s)"
  then have "findIndex (\<lambda>t. task_id t = ident) (inMemoryTasks s) \<noteq> None"
    by (auto simp: findIndex_None)
  then obtain i where i: "findIndex (\<lambda>t. task_id t = ident) (inMemoryTasks s) = Some i"
    by auto
  from findIndex_Some [OF i]
  have b: "i < length (inMemoryTasks s)" "task_id (inMemoryTasks s ! i) = ident"
    by auto
  from a i b show "\<exists>t s'. updateTaskStatus now ident newStatus s = (Inr t, s')
           \<and> task_id t = ident \<and> task_status t = newStatus \<and> task_updatedAt t = now
           \<and> (\<exists>i < length (inMemoryTasks s). task_id (inMemoryTasks s ! i) = ident
                 \<and> s' = s \<lparr> inMemoryTasks := (inMemoryTasks s)
                      [i := (inMemoryTasks s ! i) \<lparr> task_status := newStatus, task_updatedAt := now \<rparr>] \<rparr>)"
    by (auto simp: updateTaskStatus_def TaskStatus_values_def Let_def withUser_def)
qed

text \<open>
  On the store of the scenario: the status bogus is refused and the store stays; the
  status completed is written, with the time of the call.
\<close>

theorem updateTaskStatus_validates_witness:
  "js ''bogus'' \<notin> {PENDING, IN_PROGRESS, COMPLETED}
   \<and> updateTaskStatus 5000 (js ''T1'') (js ''bogus'') store1
       = (Inl (AppError_badRequest
                 (js ''Estado '' @ [0x27] @ js ''bogus'' @ [0x27] @ js '' no v'' @ [0xCE58] @ js ''lido'')),
          store1)
   \<and> COMPLETED \<in> {PENDING, IN_PROGRESS, COMPLETED}
   \<and> js ''T1'' \<in> task_id ` set (inMemoryTasks store1)
   \<and> (\<exists>t s'. updateTaskStatus 5000 (js ''T1'') COMPLETED store1 = (Inr t, s')
         \<and> task_status t = COMPLETED \<and> task_updatedAt t = 5000
         \<and> s' = store1 \<lparr> inMemoryTasks :=
                  [writeReport \<lparr> task_status := COMPLETED, task_updatedAt := 5000 \<rparr>] \<rparr>)"
proof -
  have bogus: "js ''bogus'' \<notin> {PENDING, IN_PROGRESS, COMPLETED}"
    by (simp add: PENDING_def IN_PROGRESS_def COMPLETED_def js_simps)
  have stored: "js ''T1'' \<in> task_id ` set (inMemoryTasks store1)"
    by (simp add: store1_def writeReport_def)
  from updateTaskStatus_validates [of "js ''bogus''" 5000 "js ''T1''" store1] bogus
  have refused: "updateTaskStatus 5000 (js ''T1'') (js ''bogus'') store1
       = (Inl (AppError_badRequest
                 (js ''Estado '' @ [0x27] @ js ''bogus'' @ [0x27] @ js '' no v'' @ [0xCE58] @ js ''lido'')),
          store1)"
    by blast
  from updateTaskStatus_validates [of COMPLETED 5000 "js ''T1''" store1] stored
  have "\<exists>t s'. updateTaskStatus 5000 (js ''T1'') COMPLETED store1 = (Inr t, s')
         \<and> task_status t = COMPLETED \<and> task_updatedAt t = 5000
         \<and> s' = store1 \<lparr> inMemoryTasks :=
                  [writeReport \<lparr> task_status := COMPLETED, task_updatedAt := 5000 \<rparr>] \<rparr>"
    by (auto simp: store1_def)
  with bogus stored refused show ?thesis
    by simp
qed

text \<open>
  Claim C10, as amended. \<open>moveTaskToUser\<close> probes the user before it looks the task up, in
  both branches. In the in-memory branch, for every call where neither the task id nor
  the user id is stored, it fails with the bad-request error for the missing user, and
  \<open>updateTask\<close>, on the same store and ids with a payload that sets the user to that id,
  has the opposite precedence: it fails with the not-found error for the task. In the
  other branch \<open>updateTask\<close> has the order of \<open>moveTaskToUser\<close>: for every non-empty user id
  that is the id of no user of the collection, whether a task has the task id or not, the
  two fail with the same error, the bad-request error for the missing user or, for an id
  that is no ObjectId, the cast error of the library, and the error handler reports it as
  BadRequestError. No call touches the store or the database.
\<close>

theorem moveTaskToUser_user_probe_first:
  "(inMemoryMode s
      \<and> userId \<notin> user_id ` set (inMemoryUsers (memory s))
      \<and> ident \<notin> task_id ` set (inMemoryTasks (memory s))
    \<longrightarrow> moveTaskToUser lib now ident userId s
          = (Inl (AppError_badRequest (js ''Usuario con ID '' @ userId @ js '' no existe'')), s)
        \<and> updateTask lib now ident (taskData \<lparr> user := Some userId \<rparr>) s
          = (Inl (AppError_notFound (js ''Tarea con ID '' @ ident @ js '' no encontrada'')), s))
   \<and> (\<not> inMemoryMode s \<and> userId \<noteq> []
      \<and> (\<forall>u \<in> set (users_collection (database s)). Some (user_id u) \<noteq> castObjectId userId)
    \<longrightarrow> (\<exists>error.
           moveTaskToUser lib now ident userId s = (Inl error, s)
         \<and> updateTask lib now ident (taskData \<lparr> user := Some userId \<rparr>) s = (Inl error, s)
         \<and> (error = AppError_badRequest (js ''Usuario con ID '' @ userId @ js '' no existe'')
              \<or> error = castError lib userId)
         \<and> (\<exists>envelope. handleError (Thrown error) = Inr envelope
                \<and> api_type envelope = BAD_REQUEST \<and> api_status envelope = 400)))
   \<and> handleError (Thrown (AppError_badRequest (js ''Usuario con ID '' @ userId @ js '' no existe'')))
       = Inr \<lparr> api_type = BAD_REQUEST,
               api_message = JStr (js ''Usuario con ID '' @ userId @ js '' no existe''),
               api_details = None, api_status = 400 \<rparr>
   \<and> handleError (Thrown (AppError_notFound (js ''Tarea con ID '' @ ident @ js '' no encontrada'')))
       = Inr \<lparr> api_type = NOT_FOUND,
               api_message = JStr (js ''Tarea con ID '' @ ident @ js '' no encontrada''),
               api_details = None, api_status = 404 \<rparr>"
proof (intro conjI impI)
  assume a: "inMemoryMode s
      \<and> userId \<notin> user_id ` set (inMemoryUsers (memory s))
      \<and> ident \<notin> task_id ` set (inMemoryTasks (memory s))"
  then have u: "\<not> list_ex (\<lambda>u. user_id u = userId) (inMemoryUsers (memory s))"
    by (auto simp: list_ex_iff)
  from a have t: "findIndex (\<lambda>t. task_id t = ident) (inMemoryTasks (memory s)) = None"
    by (auto simp: findIndex_None)
  from a u show "moveTaskToUser lib now ident userId s
          = (Inl (AppError_badRequest (js ''Usuario con ID '' @ userId @ js '' no existe'')), s)"
    by (simp add: moveTaskToUser_def)
  from a t show "updateTask lib now ident (taskData \<lparr> user := Some userId \<rparr>) s
          = (Inl (AppError_notFound (js ''Tarea con ID '' @ ident @ js '' no encontrada'')), s)"
    by (simp add: updateTask_def)
next
  assume a: "\<not> inMemoryMode s \<and> userId \<noteq> []
      \<and> (\<forall>u \<in> set (users_collection (database s)). Some (user_id u) \<noteq> castObjectId userId)"
  show "\<exists>error.
           moveTaskToUser lib now ident userId s = (Inl error, s)
         \<and> updateTask lib now ident (taskData \<lparr> user := Some userId \<rparr>) s = (Inl error, s)
         \<and> (error = AppError_badRequest (js ''Usuario con ID '' @ userId @ js '' no existe'')
              \<or> error = castError lib userId)
         \<and> (\<exists>envelope. handleError (Thrown error) = Inr envelope
                \<and> api_type envelope = BAD_REQUEST \<and> api_status envelope = 400)"
  proof (cases "castObjectId userId")
    case None
    then have "User_exists lib userId (database s) = Inl (castError lib userId)"
      by (simp add: User_exists_def)
    with a show ?thesis
      by (simp add: moveTaskToUser_def updateTask_def handleError_castError)
  next
    case (Some oid)
    with a have "\<not> list_ex (\<lambda>u. user_id u = oid) (users_collection (database s))"
      by (auto simp: list_ex_iff)
    with Some have "User_exists lib userId (database s) = Inr False"
      by (simp add: User_exists_def)
    with a show ?thesis
      by (simp add: moveTaskToUser_def updateTask_def handleError_badRequest)
  qed
next
  show "handleError (Thrown (AppError_badRequest (js ''Usuario con ID '' @ userId @ js '' no existe'')))
       = Inr \<lparr> api_type = BAD_REQUEST,
               api_message = JStr (js ''Usuario con ID '' @ userId @ js '' no existe''),
               api_details = None, api_status = 400 \<rparr>"
    by (simp add: handleError_badRequest jsOr_def js_simps)
next
  show "handleError (Thrown (AppError_notFound (js ''Tarea con ID '' @ ident @ js '' no encontrada'')))
       = Inr \<lparr> api_type = NOT_FOUND,
               api_message = JStr (js ''Tarea con ID '' @ ident @ js '' no encontrada''),
               api_details = None, api_status = 404 \<rparr>"
    by (simp add: handleError_notFound jsOr_def js_simps)
qed

text \<open>
  On the store of the scenario, and on the database that holds one user and no task.
\<close>

theorem moveTaskToUser_user_probe_first_witness:
  "moveTaskToUser exampleLibrary 5000 (js ''T9'') (js ''U2'') (inMemory store1)
       = (Inl (AppError_badRequest (js ''Usuario con ID U2 no existe'')), inMemory store1)
   \<and> updateTask exampleLibrary 5000 (js ''T9'') taskForU2 (inMemory store1)
       = (Inl (AppError_notFound (js ''Tarea con ID T9 no encontrada'')), inMemory store1)
   \<and> moveTaskToUser exampleLibrary 5000 missingTaskId missingUserId (durable database1)
       = (Inl (AppError_badRequest (js ''Usuario con ID 65a1b2c3d4e5f60718293a4d no existe'')),
          durable database1)
   \<and> updateTask exampleLibrary 5000 missingTaskId taskForMissingUser (durable database1)
       = (Inl (AppError_badRequest (js ''Usuario con ID 65a1b2c3d4e5f60718293a4d no existe'')),
          durable database1)"
proof -
  have m: "inMemoryMode (inMemory store1)
      \<and> js ''U2'' \<notin> user_id ` set (inMemoryUsers (memory (inMemory store1)))
      \<and> js ''T9'' \<notin> task_id ` set (inMemoryTasks (memory (inMemory store1)))"
    by (simp add: inMemory_def store1_def annLee_def writeReport_def js_simps)
  have c: "castObjectId missingUserId = Some missingUserId"
    by (simp add: missingUserId_def hex_defs js_simps)
  have d: "\<not> inMemoryMode (durable database1) \<and> missingUserId \<noteq> []
      \<and> (\<forall>u \<in> set (users_collection (database (durable database1))).
            Some (user_id u) \<noteq> castObjectId missingUserId)"
    unfolding c by (simp add: durable_def database1_def annDocument_def missingUserId_def js_simps)
  from moveTaskToUser_user_probe_first
         [of "inMemory store1" "js ''U2''" "js ''T9''" exampleLibrary 5000 taskForU2] m
  have 1: "moveTaskToUser exampleLibrary 5000 (js ''T9'') (js ''U2'') (inMemory store1)
       = (Inl (AppError_badRequest (js ''Usuario con ID U2 no existe'')), inMemory store1)
   \<and> updateTask exampleLibrary 5000 (js ''T9'') taskForU2 (inMemory store1)
       = (Inl (AppError_notFound (js ''Tarea con ID T9 no encontrada'')), inMemory store1)"
    by (simp add: taskForU2_def js_simps)
  from moveTaskToUser_user_probe_first
         [of "durable database1" missingUserId missingTaskId exampleLibrary 5000 taskForMissingUser] d
  obtain error where e:
    "moveTaskToUser exampleLibrary 5000 missingTaskId missingUserId (durable database1)
       = (Inl error, durable database1)"
    "updateTask exampleLibrary 5000 missingTaskId taskForMissingUser (durable database1)
       = (Inl error, durable database1)"
    "error = AppError_badRequest (js ''Usuario con ID '' @ missingUserId @ js '' no existe'')
       \<or> error = castError exampleLibrary missingUserId"
    by (auto simp: taskForMissingUser_def)
  have "moveTaskToUser exampleLibrary 5000 missingTaskId missingUserId (durable database1)
       = (Inl (AppError_badRequest (js ''Usuario con ID '' @ missingUserId @ js '' no existe'')),
          durable database1)"
    by (simp add: moveTaskToUser_def User_exists_def hex_defs durable_def database1_def annDocument_def
        missingUserId_def js_simps)
  with e have "error = AppError_badRequest (js ''Usuario con ID '' @ missingUserId @ js '' no existe'')"
    by simp
  with e 1 show ?thesis
    by (simp add: missingUserId_def js_simps)
qed

text \<open>
  Claim C10 as it is worded fails on the database. The database holds no task and no user
  with the id of the payload; \<open>updateTask\<close> does not report the missing task: it fails
  with the bad-request error for the missing user, which the error handler reports as
  BadRequestError.
\<close>

theorem updateTask_durable_counterexample:
  "inMemoryMode (durable database1) = False
   \<and> users_collection (database (durable database1)) = [annDocument]
   \<and> tasks_collection (database (durable database1)) = []
   \<and> user_id annDocument = js ''65a1b2c3d4e5f60718293a4b''
   \<and> user taskForMissingUser = Some (js ''65a1b2c3d4e5f60718293a4d'')
   \<and> missingTaskId = js ''65a1b2c3d4e5f60718293a4e''
   \<and> updateTask exampleLibrary 5000 missingTaskId taskForMissingUser (durable database1)
       = (Inl (AppError_badRequest (js ''Usuario con ID 65a1b2c3d4e5f60718293a4d no existe'')),
          durable database1)
   \<and> handleError (Thrown (AppError_badRequest (js ''Usuario con ID 65a1b2c3d4e5f60718293a4d no existe'')))
       = Inr \<lparr> api_type = BAD_REQUEST,
               api_message = JStr (js ''Usuario con ID 65a1b2c3d4e5f60718293a4d no existe''),
               api_details = None, api_status = 400 \<rparr>"
  by (simp add: updateTask_def User_exists_def hex_defs durable_def database1_def annDocument_def
      taskForMissingUser_def missingUserId_def missingTaskId_def handleError_badRequest jsOr_def js_simps)


section \<open>Users\<close>

subsection \<open>What validation lets through\<close>

text \<open>
  A payload that passes validation has a non-empty string for its name and a string in
  the language of the email pattern for its email; trimming such an email changes nothing.
\<close>

lemma emailRule_Nil:
  "emailRule v = [] \<longleftrightarrow> (\<exists>e. v = JStr e \<and> e \<noteq> [] \<and> emailRegex_test e)"
  by (cases v) auto

lemma nameRule_Nil: "nameRule v = [] \<Longrightarrow> \<exists>n. v = JStr n \<and> n \<noteq> []"
  by (cases v) (auto split: if_splits)

lemma valid_email_is_string:
  assumes "validateUserData userData = Inr ()"
  shows "\<exists>e. getProp (email userData) = JStr e \<and> e \<noteq> [] \<and> emailPattern e"
proof -
  from assms have "emailRule (getProp (email userData)) = []"
    unfolding validateUserData_def Let_def
      name_block [unfolded Let_def] email_block age_block [unfolded Let_def] role_block active_block
    by (simp split: if_splits)
  then show ?thesis
    by (simp add: emailRule_Nil emailRegex_test_iff_pattern)
qed

lemma valid_name_is_string:
  assumes "validateUserData userData = Inr ()"
  shows "\<exists>n. getProp (name userData) = JStr n \<and> n \<noteq> []"
proof -
  from assms have "nameRule (getProp (name userData)) = []"
    unfolding validateUserData_def Let_def
      name_block [unfolded Let_def] email_block age_block [unfolded Let_def] role_block active_block
    by (simp split: if_splits)
  then show ?thesis
    by (rule nameRule_Nil)
qed

lemma getProp_JStr: "getProp v = JStr x \<Longrightarrow> v = Some (JStr x)"
  by (cases v) auto

lemma localChar_not_white: "localChar c \<Longrightarrow> \<not> isWhiteSpace c"
  by (auto simp: localChar_def isLetter_def isDigit_def isWhiteSpace_def)

lemma isLetter_not_white: "isLetter c \<Longrightarrow> \<not> isWhiteSpace c"
  by (auto simp: isLetter_def isWhiteSpace_def)

lemma trim_email:
  assumes "emailPattern e"
  shows "trim e = e"
proof -
  from assms obtain l d t where e: "e = l @ [0x40] @ d @ [0x2E] @ t"
    and l: "l \<noteq> []" "list_all localChar l" and t: "2 \<le> length t" "list_all isLetter t"
    unfolding emailPattern_def by blast
  from l obtain c l' where c: "l = c # l'" "localChar c"
    by (cases l) auto
  from t obtain t' z where z: "t = t' @ [z]" "isLetter z"
    by (cases t rule: rev_cases) auto
  have atStart: "dropWhile isWhiteSpace e = e"
    using c localChar_not_white by (simp add: e)
  have "rev e = z # rev t' @ [0x2E] @ rev d @ [0x40] @ rev l"
    by (simp add: e z)
  then have atEnd: "dropWhile isWhiteSpace (rev e) = rev e"
    using z isLetter_not_white by simp
  show ?thesis
    by (simp add: trim_def atStart atEnd)
qed

lemma validateUserData_boPayload: "validateUserData boPayload = Inr ()"
  by (simp add: validateUserData_def boPayload_def Let_def trim_def emailRegex_test_def
      domainTld_def char_defs validRoles_def js_simps)

subsection \<open>Creating a user and reading it back\<close>

lemma definedKey_id: "v \<noteq> Some JUndefined \<Longrightarrow> definedKey v = v"
  by (cases v rule: definedKey.cases) simp_all

lemma validateUserData_boNormalPayload: "validateUserData boNormalPayload = Inr ()"
  by (simp add: validateUserData_def boNormalPayload_def Let_def trim_def emailRegex_test_def
      domainTld_def char_defs validRoles_def js_simps)

text \<open>
  Claim C7, as amended. For every valid user payload (one that \<open>validateUserData\<close> accepts)
  without an \<^verbatim>\<open>_id\<close>, \<open>createUser\<close> succeeds and \<open>getUserById\<close> on the assigned id, an id that
  no stored user has, then returns the created record: the payload as the user schema
  normalizes it (the name trimmed, the email lower-cased, a key that holds \<^verbatim>\<open>undefined\<close>
  taken as absent), with the defaults user and true for an absent role and active, the
  assigned id and the timestamps. On the database this holds for every such payload, when
  the assigned id is an ObjectId and no document has the lower-cased email, and both
  timestamps are the time of the save. On the in-memory store it holds for the payloads
  that are in that normal form already, so that the record is the payload as it was sent,
  when no stored user has the email of the payload, and the timestamps are the two times
  of the call.
\<close>

theorem createUser_then_getUserById:
  assumes "validateUserData userData = Inr ()" and "userData_id userData = None"
    and "inMemoryMode s \<longrightarrow>
           trim (asString (getProp (name userData))) = asString (getProp (name userData))
         \<and> toLowerCase (asString (getProp (email userData))) = asString (getProp (email userData))
         \<and> age userData \<noteq> Some JUndefined \<and> role userData \<noteq> Some JUndefined
         \<and> active userData \<noteq> Some JUndefined
         \<and> newObjectId \<notin> user_id ` set (inMemoryUsers (memory s))
         \<and> (\<forall>u \<in> set (inMemoryUsers (memory s)).
               \<not> jsStrictEq (getProp (email u)) (getProp (email userData)))"
    and "\<not> inMemoryMode s \<longrightarrow>
           castObjectId newObjectId = Some newObjectId
         \<and> newObjectId \<notin> user_id ` set (users_collection (database s))
         \<and> (\<forall>u \<in> set (users_collection (database s)).
               email u \<noteq> Some (JStr (toLowerCase (asString (getProp (email userData))))))"
  shows
    "\<exists>newUser s' n e.
        createUser lib newObjectId now1 now2 userData s = (Inr newUser, s')
      \<and> getUserById lib newObjectId s' = (Inr newUser, s')
      \<and> name userData = Some (JStr n) \<and> name newUser = Some (JStr (trim n))
      \<and> email userData = Some (JStr e) \<and> email newUser = Some (JStr (toLowerCase e))
      \<and> age newUser = definedKey (age userData)
      \<and> role newUser = (if definedKey (role userData) = None then Some (JStr (js ''user''))
                         else role userData)
      \<and> active newUser = (if definedKey (active userData) = None then Some (JBool True)
                           else active userData)
      \<and> user_id newUser = newObjectId
      \<and> user_createdAt newUser = now1
      \<and> user_updatedAt newUser = (if inMemoryMode s then now2 else now1)"
proof -
  from valid_name_is_string [OF assms(1)] obtain n where n: "name userData = Some (JStr n)"
    by (auto dest: getProp_JStr)
  from valid_email_is_string [OF assms(1)] obtain e where e: "email userData = Some (JStr e)"
    and pe: "emailPattern e"
    by (auto dest: getProp_JStr)
  show ?thesis
  proof (cases "inMemoryMode s")
    case True
    with assms(3) n e have norm: "trim n = n" "toLowerCase e = e"
      and dk: "definedKey (age userData) = age userData" "definedKey (role userData) = role userData"
        "definedKey (active userData) = active userData"
      and fresh: "\<forall>u \<in> set (inMemoryUsers (memory s)). \<not> user_id u = newObjectId"
      and nodup: "find (\<lambda>u. jsStrictEq (getProp (email u)) (getProp (email userData)))
                    (inMemoryUsers (memory s)) = None"
      by (auto simp: definedKey_id intro: find_None_all)
    have r: "spreadKey d (role userData) = (if role userData = None then d else role userData)" for d
      by (cases "role userData") simp_all
    have c: "spreadKey d (active userData) = (if active userData = None then d else active userData)" for d
      by (cases "active userData") simp_all
    define newUser where "newUser =
       \<lparr> name = name userData, email = email userData, age = age userData,
         role = spreadKey (Some (JStr (js ''user''))) (role userData),
         active = spreadKey (Some (JBool True)) (active userData),
         user_id = newObjectId, user_createdAt = now1, user_updatedAt = now2 \<rparr>"
    define s' where
      "s' = s \<lparr> memory := (memory s) \<lparr> inMemoryUsers := inMemoryUsers (memory s) @ [newUser] \<rparr> \<rparr>"
    have cr: "createUser lib newObjectId now1 now2 userData s = (Inr newUser, s')"
      using assms(1,2) True nodup by (simp add: createUser_def Let_def newUser_def s'_def)
    have idd: "user_id newUser = newObjectId"
      by (simp add: newUser_def)
    have gt: "getUserById lib newObjectId s' = (Inr newUser, s')"
      using True by (simp add: getUserById_def s'_def find_snoc_fresh [OF fresh] idd)
    have fields: "name newUser = Some (JStr (trim n))" "email newUser = Some (JStr (toLowerCase e))"
      "age newUser = definedKey (age userData)"
      "role newUser = (if definedKey (role userData) = None then Some (JStr (js ''user''))
                         else role userData)"
      "active newUser = (if definedKey (active userData) = None then Some (JBool True)
                           else active userData)"
      "user_createdAt newUser = now1" "user_updatedAt newUser = now2"
      by (simp_all add: newUser_def n e norm dk r c)
    from cr gt n e fields idd True show ?thesis
      by (intro exI [of _ newUser] exI [of _ s'] exI [of _ n] exI [of _ e]) simp
  next
    case False
    with assms(4) have a: "castObjectId newObjectId = Some newObjectId"
      and fresh: "\<forall>u \<in> set (users_collection (database s)). \<not> user_id u = newObjectId"
      and unique: "\<forall>u \<in> set (users_collection (database s)).
               email u \<noteq> Some (JStr (toLowerCase (asString (getProp (email userData)))))"
      by auto
    define document where "document = User_document newObjectId now1 userData"
    define s' where
      "s' = s \<lparr> database := (database s)
                   \<lparr> users_collection := users_collection (database s) @ [document] \<rparr> \<rparr>"
    have em: "email document = Some (JStr (toLowerCase e))"
      by (simp add: document_def User_document_def e trim_email [OF pe])
    have nm: "name document = Some (JStr (trim n))"
      by (simp add: document_def User_document_def n)
    have idd: "user_id document = newObjectId"
      by (simp add: document_def User_document_def)
    from fresh have noid:
      "\<not> list_ex (\<lambda>u. user_id u = user_id document) (users_collection (database s))"
      by (simp add: list_ex_iff idd)
    from unique e have noem:
      "\<not> list_ex (\<lambda>u. email u = email document) (users_collection (database s))"
      by (simp add: list_ex_iff em)
    have ins: "User_insert lib document (database s)
        = (Inr document,
           (database s) \<lparr> users_collection := users_collection (database s) @ [document] \<rparr>)"
      using noid noem by (simp add: User_insert_def)
    have cr: "createUser lib newObjectId now1 now2 userData s = (Inr document, s')"
      using assms(1,2) False ins by (simp add: createUser_def User_save_def document_def s'_def)
    have gt: "getUserById lib newObjectId s' = (Inr document, s')"
      using False a
      by (simp add: getUserById_def User_findById_def s'_def find_snoc_fresh [OF fresh] idd)
    have fields: "age document = definedKey (age userData)"
      "role document = (if definedKey (role userData) = None then Some (JStr (js ''user''))
                         else role userData)"
      "active document = (if definedKey (active userData) = None then Some (JBool True)
                           else active userData)"
      "user_createdAt document = now1" "user_updatedAt document = now1"
      by (auto simp: document_def User_document_def split: option.splits elim: definedKey.elims)
    from cr gt n e nm em idd fields False show ?thesis
      by (intro exI [of _ document] exI [of _ s'] exI [of _ n] exI [of _ e]) simp
  qed
qed

text \<open>
  After Ann Lee: a payload in normal form with every optional field set, created in the
  in-memory store and read back; a payload with blanks around the name and capitals in
  the email, created in the database and read back.
\<close>

theorem createUser_then_getUserById_witness:
  "validateUserData boNormalPayload = Inr () \<and> userData_id boNormalPayload = None
   \<and> createUser exampleLibrary (js ''U2'') 3000 3001 boNormalPayload (inMemory store1)
       = (Inr boChen, inMemory (store1 \<lparr> inMemoryUsers := [annLee, boChen] \<rparr>))
   \<and> getUserById exampleLibrary (js ''U2'') (inMemory (store1 \<lparr> inMemoryUsers := [annLee, boChen] \<rparr>))
       = (Inr boChen, inMemory (store1 \<lparr> inMemoryUsers := [annLee, boChen] \<rparr>))
   \<and> validateUserData boPayload = Inr () \<and> userData_id boPayload = None
   \<and> createUser exampleLibrary boObjectId 3000 3001 boPayload (durable database1)
       = (Inr boDocument, durable (database1 \<lparr> users_collection := [annDocument, boDocument] \<rparr>))
   \<and> getUserById exampleLibrary boObjectId
         (durable (database1 \<lparr> users_collection := [annDocument, boDocument] \<rparr>))
       = (Inr boDocument, durable (database1 \<lparr> users_collection := [annDocument, boDocument] \<rparr>))"
proof -
  note v = validateUserData_boNormalPayload and w = validateUserData_boPayload
  have i: "userData_id boNormalPayload = None" and j: "userData_id boPayload = None"
    by (simp_all add: boNormalPayload_def boPayload_def)
  have m: "inMemoryMode (inMemory store1) \<longrightarrow>
           trim (asString (getProp (name boNormalPayload))) = asString (getProp (name boNormalPayload))
         \<and> toLowerCase (asString (getProp (email boNormalPayload)))
             = asString (getProp (email boNormalPayload))
         \<and> age boNormalPayload \<noteq> Some JUndefined \<and> role boNormalPayload \<noteq> Some JUndefined
         \<and> active boNormalPayload \<noteq> Some JUndefined
         \<and> js ''U2'' \<notin> user_id ` set (inMemoryUsers (memory (inMemory store1)))
         \<and> (\<forall>u \<in> set (inMemoryUsers (memory (inMemory store1))).
               \<not> jsStrictEq (getProp (email u)) (getProp (email boNormalPayload)))"
    by (simp add: inMemory_def store1_def annLee_def boNormalPayload_def trim_def toLowerCase_def
        isWhiteSpace_def js_simps)
  have m': "\<not> inMemoryMode (inMemory store1) \<longrightarrow>
           castObjectId (js ''U2'') = Some (js ''U2'')
         \<and> js ''U2'' \<notin> user_id ` set (users_collection (database (inMemory store1)))
         \<and> (\<forall>u \<in> set (users_collection (database (inMemory store1))).
               email u \<noteq> Some (JStr (toLowerCase (asString (getProp (email boNormalPayload))))))"
    by (simp add: inMemory_def)
  have d: "\<not> inMemoryMode (durable database1) \<longrightarrow>
           castObjectId boObjectId = Some boObjectId
         \<and> boObjectId \<notin> user_id ` set (users_collection (database (durable database1)))
         \<and> (\<forall>u \<in> set (users_collection (database (durable database1))).
               email u \<noteq> Some (JStr (toLowerCase (asString (getProp (email boPayload))))))"
    by (simp add: durable_def database1_def annDocument_def boPayload_def boObjectId_def hex_defs
        js_simps)
  have d': "inMemoryMode (durable database1) \<longrightarrow>
           trim (asString (getProp (name boPayload))) = asString (getProp (name boPayload))
         \<and> toLowerCase (asString (getProp (email boPayload))) = asString (getProp (email boPayload))
         \<and> age boPayload \<noteq> Some JUndefined \<and> role boPayload \<noteq> Some JUndefined
         \<and> active boPayload \<noteq> Some JUndefined
         \<and> boObjectId \<notin> user_id ` set (inMemoryUsers (memory (durable database1)))
         \<and> (\<forall>u \<in> set (inMemoryUsers (memory (durable database1))).
               \<not> jsStrictEq (getProp (email u)) (getProp (email boPayload)))"
    by (simp add: durable_def)
  from createUser_then_getUserById [OF v i m m', of exampleLibrary 3000 3001]
  obtain newUser s' where mem:
    "createUser exampleLibrary (js ''U2'') 3000 3001 boNormalPayload (inMemory store1) = (Inr newUser, s')"
    "getUserById exampleLibrary (js ''U2'') s' = (Inr newUser, s')"
    by blast
  have mem': "createUser exampleLibrary (js ''U2'') 3000 3001 boNormalPayload (inMemory store1)
       = (Inr boChen, inMemory (store1 \<lparr> inMemoryUsers := [annLee, boChen] \<rparr>))"
    using v by (simp add: createUser_def inMemory_def store1_def annLee_def boNormalPayload_def
        boChen_def Let_def js_simps)
  from createUser_then_getUserById [OF w j d' d, of exampleLibrary 3000 3001]
  obtain document t' where dur:
    "createUser exampleLibrary boObjectId 3000 3001 boPayload (durable database1) = (Inr document, t')"
    "getUserById exampleLibrary boObjectId t' = (Inr document, t')"
    by blast
  have dur': "createUser exampleLibrary boObjectId 3000 3001 boPayload (durable database1)
       = (Inr boDocument, durable (database1 \<lparr> users_collection := [annDocument, boDocument] \<rparr>))"
    using w by (simp add: createUser_def User_save_def User_insert_def User_document_def durable_def
        database1_def annDocument_def boPayload_def boDocument_def boObjectId_def trim_def
        toLowerCase_def isWhiteSpace_def js_simps)
  from mem mem' dur dur' v w i j show ?thesis
    by simp
qed


text \<open>
  Claim C7 as the specification words it fails on the database: the record read back
  after \<open>createUser\<close> is not the payload with id, timestamps and defaults added. The name
  has lost its blanks and the email its capitals.
\<close>

theorem createUser_durable_counterexample:
  "validateUserData boPayload = Inr ()
   \<and> createUser exampleLibrary boObjectId 3000 3001 boPayload (durable database1)
       = (Inr boDocument, durable (database1 \<lparr> users_collection := [annDocument, boDocument] \<rparr>))
   \<and> getUserById exampleLibrary boObjectId
         (durable (database1 \<lparr> users_collection := [annDocument, boDocument] \<rparr>))
       = (Inr boDocument, durable (database1 \<lparr> users_collection := [annDocument, boDocument] \<rparr>))
   \<and> name boPayload = Some (JStr (js '' Bo '')) \<and> name boDocument = Some (JStr (js ''Bo''))
   \<and> email boPayload = Some (JStr (js ''Bo@Example.com''))
   \<and> email boDocument = Some (JStr (js ''bo@example.com''))
   \<and> name boDocument \<noteq> name boPayload \<and> email boDocument \<noteq> email boPayload"
  using validateUserData_boPayload
  by (simp add: createUser_def getUserById_def User_save_def User_insert_def User_document_def
      User_findById_def hex_defs durable_def database1_def annDocument_def boPayload_def
      boDocument_def boObjectId_def trim_def isWhiteSpace_def js_simps)


text \<open>
  Claim C4, as amended. For every stored user id, \<open>updateUser\<close> with an empty payload
  succeeds and skips validation, and it still writes the store: the returned user is the
  first stored user with that id with \<open>updatedAt\<close> set to the time of the call and every
  other field as it was, and that record replaces the stored one.
\<close>

theorem updateUser_empty_payload_refreshes_updatedAt:
  assumes "keys userData = []" and "ident \<in> user_id ` set (inMemoryUsers s)"
  shows "\<exists>i < length (inMemoryUsers s).
           user_id (inMemoryUsers s ! i) = ident
         \<and> (\<forall>j < i. user_id (inMemoryUsers s ! j) \<noteq> ident)
         \<and> updateUser now ident userData s
             = (Inr ((inMemoryUsers s ! i) \<lparr> user_updatedAt := now \<rparr>),
                s \<lparr> inMemoryUsers :=
                      (inMemoryUsers s)[i := (inMemoryUsers s ! i) \<lparr> user_updatedAt := now \<rparr>] \<rparr>)"
proof -
  from assms(2) have "findIndex (\<lambda>u. user_id u = ident) (inMemoryUsers s) \<noteq> None"
    by (auto simp: findIndex_None)
  then obtain i where i: "findIndex (\<lambda>u. user_id u = ident) (inMemoryUsers s) = Some i"
    by auto
  note fi = findIndex_Some [OF i]
  from assms(1) have k: "userData_id userData = None" "name userData = None"
    "email userData = None" "age userData = None" "role userData = None" "active userData = None"
    by (simp_all add: keys_empty)
  have "updateUser now ident userData s
             = (Inr ((inMemoryUsers s ! i) \<lparr> user_updatedAt := now \<rparr>),
                s \<lparr> inMemoryUsers :=
                      (inMemoryUsers s)[i := (inMemoryUsers s ! i) \<lparr> user_updatedAt := now \<rparr>] \<rparr>)"
    using assms(1) i k by (simp add: updateUser_def Let_def)
  with fi show ?thesis by blast
qed

theorem updateUser_empty_payload_witness:
  "keys emptyPayload = [] \<and> js ''U1'' \<in> user_id ` set (inMemoryUsers store1)
   \<and> updateUser 5000 (js ''U1'') emptyPayload store1
       = (Inr (annLee \<lparr> user_updatedAt := 5000 \<rparr>),
          store1 \<lparr> inMemoryUsers := [annLee \<lparr> user_updatedAt := 5000 \<rparr>] \<rparr>)"
proof -
  have k: "keys emptyPayload = []"
    by (simp add: keys_def emptyPayload_def)
  have m: "js ''U1'' \<in> user_id ` set (inMemoryUsers store1)"
    by (simp add: store1_def annLee_def)
  from updateUser_empty_payload_refreshes_updatedAt [OF k m, of 5000] k m show ?thesis
    by (auto simp: store1_def)
qed

text \<open>
  Claim C4 as the specification words it fails. Ann Lee is stored with \<open>updatedAt\<close> 1000;
  \<open>updateUser\<close> with the empty payload at time 5000 returns her with \<open>updatedAt\<close> 5000 and
  stores that record.
\<close>

theorem updateUser_empty_payload_counterexample:
  "keys emptyPayload = []
   \<and> inMemoryUsers store1 = [annLee] \<and> user_id annLee = js ''U1''
   \<and> user_updatedAt annLee = 1000
   \<and> updateUser 5000 (js ''U1'') emptyPayload store1
       = (Inr (annLee \<lparr> user_updatedAt := 5000 \<rparr>),
          \<lparr> inMemoryUsers = [annLee \<lparr> user_updatedAt := 5000 \<rparr>], inMemoryTasks = [writeReport] \<rparr>)
   \<and> updateUser 5000 (js ''U1'') emptyPayload store1 \<noteq> (Inr annLee, store1)"
  by (simp add: keys_def emptyPayload_def store1_def updateUser_def annLee_def js_simps Let_def)

subsection \<open>The uniqueness probe of the in-memory store\<close>

text \<open>
  The probe of \<open>createUser\<close> finds a stored user whose email is the very string of the
  payload: the second of two calls with exactly the same email raises the duplicate error.
\<close>

lemma find_Some_ex: "x \<in> set xs \<Longrightarrow> p x \<Longrightarrow> \<exists>y. find p xs = Some y"
  by (induction xs) auto

lemma createUser_exact_duplicate:
  assumes "validateUserData userData = Inr ()" and "inMemoryMode s"
    and "u \<in> set (inMemoryUsers (memory s))" and "email u = email userData"
  shows "createUser lib newObjectId now1 now2 userData s
           = (Inl (emailYaRegistrado (getProp (email userData))), s)"
proof -
  from valid_email_is_string [OF assms(1)] obtain e where e: "getProp (email userData) = JStr e"
    by blast
  with assms(4) have "jsStrictEq (getProp (email u)) (getProp (email userData))"
    by simp
  with assms(3) obtain y where
    "find (\<lambda>u. jsStrictEq (getProp (email u)) (getProp (email userData)))
       (inMemoryUsers (memory s)) = Some y"
    using find_Some_ex [of u "inMemoryUsers (memory s)"
        "\<lambda>u. jsStrictEq (getProp (email u)) (getProp (email userData))"]
    by blast
  with assms(1,2) show ?thesis
    by (simp add: createUser_def)
qed

text \<open>
  Claim C1, on the in-memory store. The claim asks that of two \<open>createUser\<close> calls whose
  emails are equal after lower-casing, one succeeds and the other raises the duplicate
  error. Here both succeed: after Ann Lee has been created with \<^verbatim>\<open>ann@example.com\<close>, the
  call with \<^verbatim>\<open>Ann@Example.com\<close> succeeds too, and the store holds two users whose emails
  are equal after lower-casing.
\<close>

theorem createUser_email_case_evaluation:
  "createUser exampleLibrary (js ''U1'') 1000 1000 annPayload (inMemory emptyStore)
     = (Inr annLee, inMemory \<lparr> inMemoryUsers = [annLee], inMemoryTasks = [] \<rparr>)
   \<and> createUser exampleLibrary (js ''U2'') 2000 2000 annPayloadUpper
        (inMemory \<lparr> inMemoryUsers = [annLee], inMemoryTasks = [] \<rparr>)
     = (Inr (annLee \<lparr> email := Some (JStr (js ''Ann@Example.com'')), user_id := js ''U2'',
                      user_createdAt := 2000, user_updatedAt := 2000 \<rparr>),
        inMemory
          \<lparr> inMemoryUsers =
              [annLee,
               annLee \<lparr> email := Some (JStr (js ''Ann@Example.com'')), user_id := js ''U2'',
                        user_createdAt := 2000, user_updatedAt := 2000 \<rparr>],
            inMemoryTasks = [] \<rparr>)
   \<and> toLowerCase (js ''Ann@Example.com'') = toLowerCase (js ''ann@example.com'')"
  by (simp add: createUser_def validateUserData_def annPayload_def annPayloadUpper_def annLee_def
      emptyStore_def inMemory_def Let_def trim_def emailRegex_test_def domainTld_def char_defs
      js_simps toLowerCase_def)


text \<open>
  Claim C2, on a payload with a valid email and no name. The claim asks that the absent
  name is no violation. \<open>updateUser\<close> runs the validator of \<open>createUser\<close> on every
  non-empty payload, and that validator requires the name: the call fails with the
  validation error whose one message is that the name is required, and the store is left
  as it was.
\<close>

theorem updateUser_email_only_evaluation:
  "keys emailOnlyPayload = [js ''email'']
   \<and> updateUser 5000 (js ''U1'') emailOnlyPayload store1
     = (Inl (AppError_validation (js ''Error de validaci'' @ [0xF3] @ js ''n'')
               [JStr (js ''El nombre es obligatorio'')]), store1)"
  by (simp add: keys_def updateUser_def validateUserData_def emailOnlyPayload_def
      Let_def trim_def emailRegex_test_def domainTld_def char_defs js_simps)

text \<open>
  Claim C5, on a task whose user has been deleted. The claim asks that every operation
  that returns a task gives the raw user id when no user matches. \<open>getTaskById\<close> does, and
  \<open>updateTaskStatus\<close> on the same store returns the task with the user \<^verbatim>\<open>undefined\<close>.
\<close>

theorem populate_dangling_user_evaluation:
  "snd (deleteUser (js ''U1'') store1) = storeDangling
   \<and> getTaskById (js ''T1'') storeDangling
       = (Inr (withUser writeReport (UserId (js ''U1''))), storeDangling)
   \<and> fst (updateTaskStatus 5000 (js ''T1'') COMPLETED storeDangling)
       = Inr (withUser (writeReport \<lparr> task_status := COMPLETED, task_updatedAt := 5000 \<rparr>)
                UserUndefined)"
  by (simp add: deleteUser_def getTaskById_def updateTaskStatus_def store1_def storeDangling_def
      Let_def annLee_def writeReport_def withUser_def TaskStatus_values_def PENDING_def
      IN_PROGRESS_def COMPLETED_def js_simps)

end
